theory Spec2Isabelle
  imports Complex_Main
begin

section \<open>Common data\<close>

text \<open>
  Python exceptions are values. \<open>ImportError\<close>, \<open>ValueError\<close> and \<open>IndexError\<close> are the kinds
  the two modules raise themselves or receive from numpy indexing; \<open>Raised\<close> carries any other
  exception of a collaborator (an embedder, the classifier, the vector store), which the
  code never catches.  numpy's floating-point numbers are read as real numbers.
\<close>

datatype error = ImportError | ValueError | IndexError | Raised string

type_synonym metadata_dict = "(string \<times> string) list"

record document =
  page_content :: string
  metadata :: metadata_dict

text \<open>
  \<open>Document(page_content=t)\<close>: the class is declared in \<open>langchain.schema\<close>, where the
  metadata field defaults to the empty dict.
\<close>

definition Document :: "string \<Rightarrow> document" where
  "Document t = \<lparr>page_content = t, metadata = []\<rparr>"

text \<open>A numpy array of one or of two dimensions (a list of rows).\<close>

datatype ndarray = Array1 "real list" | Array2 "real list list"

fun num_rows :: "ndarray \<Rightarrow> nat" where
  "num_rows (Array1 xs) = length xs"
| "num_rows (Array2 rows) = length rows"

text \<open>\<open>xs[i]\<close> with Python's negative indices; out of range raises \<open>IndexError\<close>.\<close>

definition py_index :: "'a list \<Rightarrow> int \<Rightarrow> error + 'a" where
  "py_index xs i =
     (let n = int (length xs); j = (if i < 0 then i + n else i)
      in if 0 \<le> j \<and> j < n then Inr (xs ! nat j) else Inl IndexError)"

text \<open>\<open>xs[start:stop]\<close> with Python's clamping of both bounds.\<close>

definition py_slice :: "'a list \<Rightarrow> int \<Rightarrow> int \<Rightarrow> 'a list" where
  "py_slice xs start stop =
     (let n = int (length xs);
          s = (if start < 0 then max (start + n) 0 else min start n);
          e = (if stop < 0 then max (stop + n) 0 else min stop n)
      in take (nat (e - s)) (drop (nat s) xs))"


section \<open>\<open>langchain/retrievers/svm.py\<close>\<close>

subsection \<open>Index construction\<close>

type_synonym embed_query = "string \<Rightarrow> error + real list"

text \<open>
  \<open>list(executor.map(embeddings.embed_query, contexts))\<close>: the results come back in the order
  of the inputs, and the first failing call's exception is raised.
\<close>

fun executor_map :: "embed_query \<Rightarrow> string list \<Rightarrow> error + real list list" where
  "executor_map f [] = Inr []"
| "executor_map f (c # cs) =
     (case f c of
        Inl e \<Rightarrow> Inl e
      | Inr v \<Rightarrow> (case executor_map f cs of Inl e \<Rightarrow> Inl e | Inr vs \<Rightarrow> Inr (v # vs)))"

text \<open>
  \<open>np.array\<close> of a list of vectors: no vectors give the empty array of shape \<open>(0,)\<close>,
  vectors of one length a matrix, vectors of different lengths a \<open>ValueError\<close>.
\<close>

definition np_array :: "real list list \<Rightarrow> error + ndarray" where
  "np_array vs =
     (case vs of
        [] \<Rightarrow> Inr (Array1 [])
      | v # _ \<Rightarrow> if list_all (\<lambda>w. length w = length v) vs then Inr (Array2 vs)
                 else Inl ValueError)"

definition create_index :: "string list \<Rightarrow> embed_query \<Rightarrow> error + ndarray" where
  "create_index contexts embeddings =
     (case executor_map embeddings contexts of
        Inl e \<Rightarrow> Inl e
      | Inr vs \<Rightarrow> np_array vs)"

subsection \<open>The retriever\<close>

record SVMRetriever =
  embeddings :: embed_query
  index :: ndarray
  texts :: "string list"
  svm_k :: int
  relevancy_threshold :: "real option"

text \<open>The keyword arguments that the class methods pass on to the constructor.\<close>

record svm_kwargs =
  kw_k :: "int option"
  kw_relevancy_threshold :: "real option"

definition from_texts :: "string list \<Rightarrow> embed_query \<Rightarrow> svm_kwargs \<Rightarrow> error + SVMRetriever" where
  "from_texts txts emb kwargs =
     (case create_index txts emb of
        Inl e \<Rightarrow> Inl e
      | Inr ix \<Rightarrow>
          Inr \<lparr>embeddings = emb, index = ix, texts = txts,
               svm_k = (case kw_k kwargs of None \<Rightarrow> 4 | Some n \<Rightarrow> n),
               relevancy_threshold = kw_relevancy_threshold kwargs\<rparr>)"

text \<open>
  \<open>texts, metadatas = zip(*(...))\<close>: without documents the unpacking finds no values and
  raises \<open>ValueError\<close>; otherwise \<open>metadatas\<close> is bound and never read.
\<close>

definition from_documents ::
  "document list \<Rightarrow> embed_query \<Rightarrow> svm_kwargs \<Rightarrow> error + SVMRetriever" where
  "from_documents documents emb kwargs =
     (case documents of
        [] \<Rightarrow> Inl ValueError
      | _ # _ \<Rightarrow>
          (let pairs = map (\<lambda>d. (page_content d, metadata d)) documents;
               txts = map fst pairs;
               metadatas = map snd pairs
           in from_texts txts emb kwargs))"

subsection \<open>The classifier and numpy\<close>

text \<open>
  scikit-learn is outside the repository.  Whether it can be imported, and what
  \<open>LinearSVC(class_weight="balanced", max_iter=10000, tol=1e-6, C=0.1).fit(x, y)\<close> finds, are
  parameters: the solver is not deterministic, so nothing is assumed about the separator it
  returns, and it may raise.  A fitted linear classifier is its coefficient vector and its
  intercept, and its decision value of a row is the affine form of the row.
\<close>

record linear_model =
  coef :: "real list"
  intercept :: real

record sklearn =
  importable :: bool
  fit :: "real list list \<Rightarrow> real list \<Rightarrow> error + linear_model"

definition dot :: "real list \<Rightarrow> real list \<Rightarrow> real" where
  "dot u v = sum_list (map2 (*) u v)"

definition decision_function :: "linear_model \<Rightarrow> real list list \<Rightarrow> real list" where
  "decision_function clf x = map (\<lambda>row. dot row (coef clf) + intercept clf) x"

text \<open>
  \<open>np.concatenate([query_embeds[None, ...], self.index])\<close>: the index must have two
  dimensions and rows as long as the query vector.
\<close>

fun np_concatenate :: "real list \<Rightarrow> ndarray \<Rightarrow> error + real list list" where
  "np_concatenate query_embeds (Array1 _) = Inl ValueError"
| "np_concatenate query_embeds (Array2 rows) =
     (if list_all (\<lambda>r. length r = length query_embeds) rows then Inr (query_embeds # rows)
      else Inl ValueError)"

text \<open>
  \<open>np.argsort\<close>: the positions in ascending order of their values.  Equal values are kept
  in the order of their positions here; the theorems below use only that the result
  is a rearrangement of all positions.
\<close>

definition np_argsort :: "real list \<Rightarrow> nat list" where
  "np_argsort xs = sort_key (\<lambda>i. xs ! i) [0..<length xs]"

text \<open>\<open>np.where(a == v)[0]\<close>: the positions that hold \<open>v\<close>.\<close>

definition np_where_eq :: "nat list \<Rightarrow> nat \<Rightarrow> nat list" where
  "np_where_eq a v = filter (\<lambda>i. a ! i = v) [0..<length a]"

text \<open>Lines 95 to 97: the position of row 0 in the order, and the swap to the front.\<close>

definition swap_zero :: "nat list \<Rightarrow> error + nat list" where
  "swap_zero sorted_ix =
     (case np_where_eq sorted_ix 0 of
        [] \<Rightarrow> Inl IndexError
      | zero_index # _ \<Rightarrow>
          if zero_index \<noteq> 0
          then Inr ((sorted_ix[0 := sorted_ix ! zero_index])[zero_index := sorted_ix ! 0])
          else Inr sorted_ix)"

text \<open>Lines 99 and 100.\<close>

definition normalized_similarities :: "real list \<Rightarrow> real list" where
  "normalized_similarities similarities =
     (let denominator = Max (set similarities) - Min (set similarities) + 1 / 10 ^ 6
      in map (\<lambda>s. (s - Min (set similarities)) / denominator) similarities)"

text \<open>
  Lines 104 to 107, the test of a row:
  \<open>self.relevancy_threshold is None or normalized_similarities[row] >= self.relevancy_threshold\<close>.
\<close>

definition meets_threshold :: "real option \<Rightarrow> real list \<Rightarrow> nat \<Rightarrow> bool" where
  "meets_threshold thr normalized row =
     (case thr of None \<Rightarrow> True | Some t \<Rightarrow> normalized ! row \<ge> t)"

text \<open>Lines 102 to 109: the loop over the rows of the slice, appending to \<open>top_k_results\<close>.\<close>

fun top_k_loop ::
  "string list \<Rightarrow> real option \<Rightarrow> real list \<Rightarrow> nat list \<Rightarrow> document list \<Rightarrow> error + document list"
where
  "top_k_loop txts thr normalized [] top_k_results = Inr top_k_results"
| "top_k_loop txts thr normalized (row # rows) top_k_results =
     (if meets_threshold thr normalized row
      then (case py_index txts (int row - 1) of
              Inl e \<Rightarrow> Inl e
            | Inr t \<Rightarrow> top_k_loop txts thr normalized rows (top_k_results @ [Document t]))
      else top_k_loop txts thr normalized rows top_k_results)"

definition get_relevant_documents ::
  "sklearn \<Rightarrow> SVMRetriever \<Rightarrow> string \<Rightarrow> error + document list" where
  "get_relevant_documents svm self query =
     (if \<not> importable svm then Inl ImportError
      else case embeddings self query of
        Inl e \<Rightarrow> Inl e
      | Inr query_embeds \<Rightarrow>
     (case np_concatenate query_embeds (index self) of
        Inl e \<Rightarrow> Inl e
      | Inr x \<Rightarrow>
     (let y = (replicate (length x) 0)[0 := 1]
      in case fit svm x y of
        Inl e \<Rightarrow> Inl e
      | Inr clf \<Rightarrow>
     (let similarities = decision_function clf x
      in case swap_zero (np_argsort (map uminus similarities)) of
        Inl e \<Rightarrow> Inl e
      | Inr sorted_ix \<Rightarrow>
          top_k_loop (texts self) (relevancy_threshold self)
            (normalized_similarities similarities)
            (py_slice sorted_ix 1 (svm_k self + 1)) []))))"


section \<open>\<open>langchain/vectorstores/deeplake.py\<close>\<close>

subsection \<open>Values and collaborators\<close>

text \<open>
  What a caller or an embedding function hands over as an embedding: a Python list of
  floats, a list of such lists, or a numpy array.
\<close>

datatype embedding = PyList "real list" | PyNested "real list list" | NdArray ndarray

type_synonym embedding_fn = "string \<Rightarrow> error + embedding"

text \<open>
  The \<open>embedding_function\<close> argument of \<open>_search\<close>: an \<open>Embeddings\<close> object, of which
  \<open>embed_query\<close> is taken, or any other callable, taken as it is.
\<close>

datatype embedder = Embeddings embedding_fn | Callable embedding_fn

text \<open>The filter is a dict or a callable that \<open>_search\<close> hands on unread.\<close>

type_synonym filter_spec = string

text \<open>The keyword arguments of \<open>self.vectorstore.search\<close> at line 355, and of the call at line 239.\<close>

record search_kwargs =
  vs_embedding :: "ndarray option"
  vs_k :: "int option"
  vs_distance_metric :: string
  vs_filter :: "filter_spec option"
  vs_exec_option :: "string option"
  vs_return_tensors :: "string list"

datatype store_call = Embedding_Search search_kwargs | Tql_Search string "string option"

text \<open>The tensors of a search result that \<open>_search\<close> reads.\<close>

record tensors =
  res_score :: "real list"
  res_embedding :: "real list list"
  res_metadata :: "metadata_dict list"
  res_text :: "string list"

text \<open>
  The instance: the \<open>embed_query\<close> of the configured \<open>_embedding_function\<close>, if there is
  one, and the search of the Deep Lake vector store, which is outside the repository.
\<close>

record DeepLake =
  self_embedding_function :: "embedding_fn option"
  vectorstore :: "store_call \<Rightarrow> error + tensors"

text \<open>
  What \<open>_search\<close> uses and the sources do not hold: numpy's rounding to \<open>float32\<close>, and
  \<open>maximal_marginal_relevance\<close> of \<open>langchain/vectorstores/utils.py\<close>, called with the query
  embedding, the candidate embeddings, the number to select and \<open>lambda_mult\<close>, and
  returning the positions it selected, in the order of selection.
\<close>

record library =
  float32 :: "real \<Rightarrow> real"
  maximal_marginal_relevance ::
    "ndarray option \<Rightarrow> real list list \<Rightarrow> int \<Rightarrow> real \<Rightarrow> error + nat list"

text \<open>
  The calls a run makes on its collaborators, in order: an embedding function, explicit or
  configured, on a query; the store's search; the selection.
\<close>

datatype fn_source = Explicit | Configured

datatype event =
    Embed_Call fn_source string
  | Store_Call store_call
  | MMR_Call "ndarray option" "real list list" int real

datatype search_output = Docs "document list" | Scored "(document \<times> real) list"

text \<open>The arguments of \<open>_search\<close>; the last two are its keyword arguments \<open>**kwargs\<close>.\<close>

record search_args =
  arg_query :: "string option"
  arg_embedding :: "embedding option"
  arg_embedding_function :: "embedder option"
  arg_k :: int
  arg_distance_metric :: string
  arg_use_maximal_marginal_relevance :: bool
  arg_fetch_k :: "int option"
  arg_filter :: "filter_spec option"
  arg_return_score :: bool
  arg_exec_option :: "string option"
  arg_tql_query :: "string option"
  arg_lambda_mult :: "real option"

text \<open>Python's truth value of an optional string: \<open>None\<close> and the empty string are false.\<close>

fun truthy :: "string option \<Rightarrow> bool" where
  "truthy None = False"
| "truthy (Some s) = (s \<noteq> [])"

subsection \<open>\<open>_search_tql\<close>\<close>

text \<open>Lines 246 to 252 and 382 to 388.\<close>

definition make_docs :: "string list \<Rightarrow> metadata_dict list \<Rightarrow> document list" where
  "make_docs txts metadatas =
     map (\<lambda>(t, m). \<lparr>page_content = t, metadata = m\<rparr>) (zip txts metadatas)"

text \<open>
  \<open>_search\<close> passes six keyword arguments, \<open>return_score\<close> first; \<open>next(iter(kwargs))\<close>
  is that one, and the call is refused unless it is \<open>False\<close>.  The store is searched
  before.
\<close>

definition search_tql ::
  "DeepLake \<Rightarrow> string \<Rightarrow> string option \<Rightarrow> bool \<Rightarrow> event list \<times> (error + search_output)" where
  "search_tql self tql_query exec_option return_score =
     (let call = Tql_Search tql_query exec_option
      in case vectorstore self call of
           Inl e \<Rightarrow> ([Store_Call call], Inl e)
         | Inr result \<Rightarrow>
             (let docs = make_docs (res_text result) (res_metadata result)
              in if return_score then ([Store_Call call], Inl ValueError)
                 else ([Store_Call call], Inr (Docs docs))))"

subsection \<open>\<open>_search\<close>\<close>

text \<open>Lines 331 to 339.\<close>

fun callable_of :: "embedder \<Rightarrow> embedding_fn" where
  "callable_of (Embeddings embed_query) = embed_query"
| "callable_of (Callable f) = f"

definition resolve_embedding_function ::
  "embedder option \<Rightarrow> embedding_fn option \<Rightarrow> (fn_source \<times> embedding_fn) option" where
  "resolve_embedding_function embedding_function configured =
     (case embedding_function of
        Some ef \<Rightarrow> Some (Explicit, callable_of ef)
      | None \<Rightarrow>
          (case configured of
             Some embed_query \<Rightarrow> Some (Configured, embed_query)
           | None \<Rightarrow> None))"

text \<open>Lines 341 to 348.\<close>

definition resolve_embedding ::
  "(fn_source \<times> embedding_fn) option \<Rightarrow> embedding option \<Rightarrow> string option
     \<Rightarrow> event list \<times> (error + embedding option)" where
  "resolve_embedding ef emb query =
     (case emb of
        Some e \<Rightarrow> ([], Inr (Some e))
      | None \<Rightarrow>
          (case ef of
             None \<Rightarrow> ([], Inl ValueError)
           | Some (src, f) \<Rightarrow>
               if truthy query
               then (case f (the query) of
                       Inl e \<Rightarrow> ([Embed_Call src (the query)], Inl e)
                     | Inr v \<Rightarrow> ([Embed_Call src (the query)], Inr (Some v)))
               else ([], Inr None)))"

text \<open>
  Lines 350 to 353.  A list becomes a \<open>float32\<close> array, and of an array of more than one
  dimension the first row is kept; an array and \<open>None\<close> pass unchanged.
\<close>

definition first_row :: "ndarray \<Rightarrow> error + ndarray" where
  "first_row a =
     (case a of
        Array1 xs \<Rightarrow> Inr (Array1 xs)
      | Array2 [] \<Rightarrow> Inl IndexError
      | Array2 (r # _) \<Rightarrow> Inr (Array1 r))"

definition to_ndarray :: "library \<Rightarrow> embedding option \<Rightarrow> error + ndarray option" where
  "to_ndarray lib emb =
     (case emb of
        None \<Rightarrow> Inr None
      | Some (NdArray a) \<Rightarrow> Inr (Some a)
      | Some (PyList xs) \<Rightarrow> Inr (Some (Array1 (map (float32 lib) xs)))
      | Some (PyNested xss) \<Rightarrow>
          (case np_array (map (map (float32 lib)) xss) of
             Inl e \<Rightarrow> Inl e
           | Inr a \<Rightarrow> (case first_row a of Inl e \<Rightarrow> Inl e | Inr r \<Rightarrow> Inr (Some r))))"

text \<open>Lines 355 to 362.\<close>

definition search_call :: "search_args \<Rightarrow> ndarray option \<Rightarrow> store_call" where
  "search_call args emb =
     Embedding_Search
       \<lparr>vs_embedding = emb,
        vs_k = (if arg_use_maximal_marginal_relevance args then arg_fetch_k args
                else Some (arg_k args)),
        vs_distance_metric = arg_distance_metric args,
        vs_filter = arg_filter args,
        vs_exec_option = arg_exec_option args,
        vs_return_tensors = [''embedding'', ''metadata'', ''text'']\<rparr>"

text \<open>\<open>[xs[i] for i in indices]\<close>.\<close>

fun select :: "'a list \<Rightarrow> nat list \<Rightarrow> error + 'a list" where
  "select xs [] = Inr []"
| "select xs (i # rest) =
     (case py_index xs (int i) of
        Inl e \<Rightarrow> Inl e
      | Inr x \<Rightarrow> (case select xs rest of Inl e \<Rightarrow> Inl e | Inr ys \<Rightarrow> Inr (x # ys)))"

text \<open>Lines 382 to 393.\<close>

definition build_output ::
  "bool \<Rightarrow> real list \<Rightarrow> string list \<Rightarrow> metadata_dict list \<Rightarrow> search_output" where
  "build_output return_score scores txts metadatas =
     (let docs = make_docs txts metadatas
      in if return_score then Scored (zip docs scores) else Docs docs)"

text \<open>Lines 364 to 393, after the store has answered.\<close>

definition rank_result ::
  "library \<Rightarrow> search_args \<Rightarrow> ndarray option \<Rightarrow> tensors \<Rightarrow> event list \<times> (error + search_output)"
where
  "rank_result lib args emb result =
     (let scores = res_score result;
          embeddings = res_embedding result;
          metadatas = res_metadata result;
          txts = res_text result
      in if arg_use_maximal_marginal_relevance args
         then
           (let lambda_mult = (case arg_lambda_mult args of None \<Rightarrow> 1 / 2 | Some l \<Rightarrow> l);
                target = min (arg_k args) (int (length txts));
                called = [MMR_Call emb embeddings target lambda_mult]
            in case maximal_marginal_relevance lib emb embeddings target lambda_mult of
                 Inl e \<Rightarrow> (called, Inl e)
               | Inr indices \<Rightarrow>
                   (case select scores indices of
                      Inl e \<Rightarrow> (called, Inl e)
                    | Inr scores' \<Rightarrow>
                   (case select txts indices of
                      Inl e \<Rightarrow> (called, Inl e)
                    | Inr txts' \<Rightarrow>
                   (case select metadatas indices of
                      Inl e \<Rightarrow> (called, Inl e)
                    | Inr metadatas' \<Rightarrow>
                        (called,
                         Inr (build_output (arg_return_score args) scores' txts' metadatas'))))))
         else ([], Inr (build_output (arg_return_score args) scores txts metadatas)))"

definition search ::
  "library \<Rightarrow> DeepLake \<Rightarrow> search_args \<Rightarrow> event list \<times> (error + search_output)" where
  "search lib self args =
     (if truthy (arg_tql_query args)
      then search_tql self (the (arg_tql_query args)) (arg_exec_option args)
             (arg_return_score args)
      else
       (let ef = resolve_embedding_function (arg_embedding_function args)
                   (self_embedding_function self)
        in case resolve_embedding ef (arg_embedding args) (arg_query args) of
             (embedded, Inl e) \<Rightarrow> (embedded, Inl e)
           | (embedded, Inr emb) \<Rightarrow>
               (case to_ndarray lib emb of
                  Inl e \<Rightarrow> (embedded, Inl e)
                | Inr emb' \<Rightarrow>
                    (let call = search_call args emb'
                     in case vectorstore self call of
                          Inl e \<Rightarrow> (embedded @ [Store_Call call], Inl e)
                        | Inr result \<Rightarrow>
                            (case rank_result lib args emb' result of
                               (selected, r) \<Rightarrow>
                                 (embedded @ [Store_Call call] @ selected, r))))))"

subsection \<open>What a run did\<close>

text \<open>Projections of the list of calls, used to state the claims.\<close>

fun embed_calls :: "event list \<Rightarrow> (fn_source \<times> string) list" where
  "embed_calls [] = []"
| "embed_calls (Embed_Call src q # evs) = (src, q) # embed_calls evs"
| "embed_calls (_ # evs) = embed_calls evs"

fun store_calls :: "event list \<Rightarrow> store_call list" where
  "store_calls [] = []"
| "store_calls (Store_Call c # evs) = c # store_calls evs"
| "store_calls (_ # evs) = store_calls evs"

fun mmr_targets :: "event list \<Rightarrow> int list" where
  "mmr_targets [] = []"
| "mmr_targets (MMR_Call _ _ target _ # evs) = target # mmr_targets evs"
| "mmr_targets (_ # evs) = mmr_targets evs"

fun output_length :: "search_output \<Rightarrow> nat" where
  "output_length (Docs docs) = length docs"
| "output_length (Scored pairs) = length pairs"

text \<open>The requested number of the store call, if it is a search by embedding.\<close>

fun requested_k :: "store_call \<Rightarrow> int option" where
  "requested_k (Embedding_Search kw) = vs_k kw"
| "requested_k (Tql_Search _ _) = None"

fun requested_embedding :: "store_call \<Rightarrow> ndarray option" where
  "requested_embedding (Embedding_Search kw) = vs_embedding kw"
| "requested_embedding (Tql_Search _ _) = None"

subsection \<open>Maximal marginal relevance\<close>

text \<open>
  Modelled from the spec: \<open>maximal_marginal_relevance\<close> is defined in
  \<open>langchain/vectorstores/utils.py\<close>, which is not among the sources.  Section 4.3 of the
  specification: with the similarity of the query to every candidate, repeat until \<open>k\<close>
  items are selected or no candidates remain: the redundancy of a remaining candidate is
  its greatest similarity to a selected one (0 if none is selected yet), its combined
  score is \<open>lambda * similarity(query, i) - (1 - lambda) * redundancy(i)\<close>, and the
  remaining candidate of the highest combined score, the first of them in candidate
  order, moves from the remaining to the selected ones.  The similarity measure is a
  parameter (cosine similarity unless otherwise configured).
\<close>

definition redundancy ::
  "(real list \<Rightarrow> real list \<Rightarrow> real) \<Rightarrow> real list list \<Rightarrow> nat list \<Rightarrow> nat \<Rightarrow> real" where
  "redundancy sim cands selected i =
     (case selected of
        [] \<Rightarrow> 0
      | j # js \<Rightarrow> fold (\<lambda>j' m. max m (sim (cands ! i) (cands ! j'))) js
                    (sim (cands ! i) (cands ! j)))"

text \<open>
  Modelled from the spec: the combined score of section 4.3, step 3b, for
  \<open>maximal_marginal_relevance\<close>, which is not among the sources.
\<close>

definition combined_score ::
  "(real list \<Rightarrow> real list \<Rightarrow> real) \<Rightarrow> real list \<Rightarrow> real list list \<Rightarrow> real \<Rightarrow> nat list \<Rightarrow> nat
     \<Rightarrow> real" where
  "combined_score sim q cands lam selected i =
     lam * sim q (cands ! i) - (1 - lam) * redundancy sim cands selected i"

text \<open>
  Modelled from the spec: the choice of section 4.3, step 3c, the first element of the
  highest score (\<open>maximal_marginal_relevance\<close> is not among the sources).
\<close>

fun first_best :: "(nat \<Rightarrow> real) \<Rightarrow> nat \<Rightarrow> nat list \<Rightarrow> nat" where
  "first_best f b [] = b"
| "first_best f b (i # rest) = first_best f (if f i > f b then i else b) rest"

text \<open>
  Modelled from the spec: the loop of section 4.3, step 3, at most \<open>k\<close> rounds over the
  remaining candidates (\<open>maximal_marginal_relevance\<close> is not among the sources).
\<close>

fun mmr_greedy ::
  "(real list \<Rightarrow> real list \<Rightarrow> real) \<Rightarrow> real list \<Rightarrow> real list list \<Rightarrow> real \<Rightarrow> nat
     \<Rightarrow> nat list \<Rightarrow> nat list \<Rightarrow> nat list" where
  "mmr_greedy sim q cands lam 0 selected remaining = selected"
| "mmr_greedy sim q cands lam (Suc n) selected [] = selected"
| "mmr_greedy sim q cands lam (Suc n) selected (r # rs) =
     (let best = first_best (combined_score sim q cands lam selected) r rs
      in mmr_greedy sim q cands lam n (selected @ [best]) (remove1 best (r # rs)))"

text \<open>
  Modelled from the spec: the selection of section 4.3 as a whole, from all candidates and
  nothing selected (\<open>maximal_marginal_relevance\<close> is not among the sources).
\<close>

definition mmr_select ::
  "(real list \<Rightarrow> real list \<Rightarrow> real) \<Rightarrow> real list \<Rightarrow> real list list \<Rightarrow> nat \<Rightarrow> real \<Rightarrow> nat list"
where
  "mmr_select sim q cands k lam = mmr_greedy sim q cands lam k [] [0..<length cands]"

text \<open>
  The contract of the selection that the length of a result of \<open>_search\<close> rests on: it
  returns no more positions than it was asked for.
\<close>

definition selects_at_most_target :: "library \<Rightarrow> bool" where
  "selects_at_most_target lib =
     (\<forall>emb cands target lam indices.
        maximal_marginal_relevance lib emb cands target lam = Inr indices
        \<longrightarrow> length indices \<le> nat target)"

section \<open>Concrete instances\<close>

subsection \<open>A toy retriever\<close>

text \<open>
  Three texts with two-dimensional embeddings and a query near the first of them.  The
  classifier refuses a fit on a single class, as scikit-learn does, and otherwise returns a
  fixed separator; under it the first text scores above the query row itself, which is the
  case the swap is for.
\<close>

definition toy_embed :: embed_query where
  "toy_embed s =
     (if s = ''cat'' then Inr [1, 0]
      else if s = ''dog'' then Inr [0, 1]
      else if s = ''car'' then Inr [-1, 0]
      else if s = ''kitten'' then Inr [9/10, 1/10]
      else Inl (Raised ''EmbeddingFailure''))"

definition toy_model :: linear_model where
  "toy_model = \<lparr>coef = [1, 0], intercept = -1/2\<rparr>"

definition toy_svm :: sklearn where
  "toy_svm = \<lparr>importable = True,
     fit = (\<lambda>x y. if length x < 2 then Inl ValueError else Inr toy_model)\<rparr>"

definition toy_retriever :: "int \<Rightarrow> real option \<Rightarrow> SVMRetriever" where
  "toy_retriever k thr = \<lparr>embeddings = toy_embed, index = Array2 [[1, 0], [0, 1], [-1, 0]],
     texts = [''cat'', ''dog'', ''car''], svm_k = k, relevancy_threshold = thr\<rparr>"



text \<open>The same retriever over an index without rows, and over one row of the wrong length.\<close>

definition empty_retriever :: SVMRetriever where
  "empty_retriever = \<lparr>embeddings = toy_embed, index = Array2 [], texts = [],
     svm_k = 2, relevancy_threshold = None\<rparr>"

definition misshaped_retriever :: SVMRetriever where
  "misshaped_retriever = \<lparr>embeddings = toy_embed, index = Array2 [[1, 0, 0]],
     texts = [''cat''], svm_k = 2, relevancy_threshold = None\<rparr>"

definition toy_documents :: "document list" where
  "toy_documents =
     [\<lparr>page_content = ''cat'', metadata = [(''source'', ''a.txt'')]\<rparr>,
      \<lparr>page_content = ''dog'', metadata = [(''source'', ''b.txt'')]\<rparr>,
      \<lparr>page_content = ''car'', metadata = []\<rparr>]"

subsection \<open>A toy vector store\<close>

text \<open>
  Three candidates, the second nearly the first.  The store returns the first \<open>k\<close> of
  them; the selection is the greedy one of the specification over the dot product, which is
  the cosine on these vectors up to rounding; \<open>float32\<close> rounds nothing.
\<close>

definition toy_tensors :: tensors where
  "toy_tensors = \<lparr>res_score = [0, 1/100, 1],
     res_embedding = [[1, 0], [99/100, 1/100], [0, 1]],
     res_metadata = [[(''id'', ''0'')], [(''id'', ''1'')], [(''id'', ''2'')]],
     res_text = [''a'', ''b'', ''c'']\<rparr>"

definition first_candidates :: "nat \<Rightarrow> tensors \<Rightarrow> tensors" where
  "first_candidates n t = \<lparr>res_score = take n (res_score t),
     res_embedding = take n (res_embedding t),
     res_metadata = take n (res_metadata t),
     res_text = take n (res_text t)\<rparr>"

fun toy_store :: "store_call \<Rightarrow> error + tensors" where
  "toy_store (Embedding_Search kw) =
     (case vs_k kw of
        None \<Rightarrow> Inr toy_tensors
      | Some n \<Rightarrow> Inr (first_candidates (nat n) toy_tensors))"
| "toy_store (Tql_Search _ _) = Inr toy_tensors"

definition toy_library :: library where
  "toy_library = \<lparr>float32 = (\<lambda>x. x),
     maximal_marginal_relevance = (\<lambda>emb cands target lam.
       case emb of
         Some (Array1 q) \<Rightarrow> Inr (mmr_select dot q cands (nat target) lam)
       | _ \<Rightarrow> Inl (Raised ''TypeError''))\<rparr>"

definition toy_configured :: embedding_fn where
  "toy_configured s = Inr (PyList [1, 0])"

definition toy_explicit :: embedding_fn where
  "toy_explicit s = Inr (PyNested [[0, 1], [1, 1]])"

definition toy_deeplake :: DeepLake where
  "toy_deeplake = \<lparr>self_embedding_function = Some toy_configured, vectorstore = toy_store\<rparr>"

definition bare_deeplake :: DeepLake where
  "bare_deeplake = \<lparr>self_embedding_function = None, vectorstore = toy_store\<rparr>"

text \<open>The defaults of \<open>_search\<close>, with a query.\<close>

definition toy_args :: search_args where
  "toy_args = \<lparr>arg_query = Some ''query'', arg_embedding = None,
     arg_embedding_function = None, arg_k = 4, arg_distance_metric = ''L2'',
     arg_use_maximal_marginal_relevance = False, arg_fetch_k = Some 20, arg_filter = None,
     arg_return_score = False, arg_exec_option = None, arg_tql_query = None,
     arg_lambda_mult = None\<rparr>"

text \<open>Selection of two out of three fetched candidates, with scores.\<close>

definition mmr_args :: search_args where
  "mmr_args = toy_args\<lparr>arg_k := 2, arg_use_maximal_marginal_relevance := True,
     arg_fetch_k := Some 3, arg_return_score := True, arg_lambda_mult := Some (3/10)\<rparr>"

text \<open>A query vector given outright, beside an explicit function; and the function alone.\<close>

definition given_vector_args :: search_args where
  "given_vector_args = toy_args\<lparr>arg_embedding := Some (NdArray (Array1 [0, 1])),
     arg_embedding_function := Some (Callable toy_explicit)\<rparr>"

definition given_function_args :: search_args where
  "given_function_args = toy_args\<lparr>arg_embedding_function := Some (Callable toy_explicit)\<rparr>"

text \<open>No query and no vector.\<close>

definition no_query_args :: search_args where
  "no_query_args = toy_args\<lparr>arg_query := None\<rparr>"

section \<open>Properties of the SVM retriever\<close>

subsection \<open>The order, the swap and the slice\<close>

lemma np_argsort_props:
  "length (np_argsort xs) = length xs" "distinct (np_argsort xs)"
  "set (np_argsort xs) = {0..<length xs}"
  by (simp_all add: np_argsort_def)

lemma np_where_eq_hd:
  assumes "v \<in> set a"
  shows "\<exists>zi rest. np_where_eq a v = zi # rest \<and> zi < length a \<and> a ! zi = v"
proof -
  from assms obtain i where i: "i < length a" "a ! i = v"
    by (auto simp: in_set_conv_nth)
  then have "i \<in> set (np_where_eq a v)"
    by (simp add: np_where_eq_def)
  then obtain zi rest where e: "np_where_eq a v = zi # rest"
    by (cases "np_where_eq a v") auto
  then have "zi \<in> set (np_where_eq a v)" by simp
  then have "zi < length a \<and> a ! zi = v"
    by (simp add: np_where_eq_def)
  with e show ?thesis by blast
qed

lemma swap_zero_perm:
  assumes "distinct s" and "set s = {0..<n}" and "0 < n"
  shows "\<exists>s'. swap_zero s = Inr s' \<and> length s' = length s \<and> s' ! 0 = 0
            \<and> distinct s' \<and> set s' = {0..<n}"
proof -
  have "0 \<in> set s" using assms by simp
  then obtain zi rest where z: "np_where_eq s 0 = zi # rest" "zi < length s" "s ! zi = 0"
    using np_where_eq_hd by blast
  have len: "0 < length s" using z(2) by (cases s) auto
  show ?thesis
  proof (cases "zi = 0")
    case True
    then show ?thesis using z assms by (simp add: swap_zero_def)
  next
    case False
    let ?s' = "(s[0 := s ! zi])[zi := s ! 0]"
    have "swap_zero s = Inr ?s'" using z False by (simp add: swap_zero_def)
    moreover have "distinct ?s'" using distinct_swap[OF len z(2)] assms(1) by simp
    moreover have "set ?s' = {0..<n}" using set_swap[OF len z(2)] assms(2) by simp
    moreover have "?s' ! 0 = 0" using z len False by simp
    ultimately show ?thesis by simp
  qed
qed

lemma swap_zero_tail:
  assumes "swap_zero s = Inr s'" and "distinct s" and "set s = {0..<n}" and "0 < n"
  shows "\<forall>row \<in> set (tl s'). 1 \<le> row \<and> row < n"
proof -
  from swap_zero_perm[OF assms(2-4)] assms(1)
  have p: "length s' = length s" "s' ! 0 = 0" "distinct s'" "set s' = {0..<n}" by auto
  have "s' \<noteq> []" using p(4) assms(4) by auto
  then obtain rest where s': "s' = 0 # rest" using p(2) by (cases s') auto
  then have "0 \<notin> set rest" "set rest \<subseteq> {0..<n}" using p(3,4) by auto
  then show ?thesis using s' by (auto simp: Suc_le_eq intro: gr0I)
qed

lemma swap_zero_shape:
  assumes "swap_zero a = Inr s"
  shows "\<exists>zero_index. zero_index < length a \<and> a ! zero_index = 0
           \<and> (\<forall>i < zero_index. a ! i \<noteq> 0)
           \<and> s = (a[0 := 0])[zero_index := a ! 0]"
proof -
  from assms obtain zi rest where w: "np_where_eq a 0 = zi # rest"
    by (cases "np_where_eq a 0") (auto simp: swap_zero_def)
  then have "zi \<in> set (np_where_eq a 0)" by simp
  then have zi: "zi < length a" "a ! zi = 0" by (simp_all add: np_where_eq_def)
  have first: "\<forall>i < zi. a ! i \<noteq> 0"
  proof (intro allI impI notI)
    fix i assume i: "i < zi" and z: "a ! i = 0"
    then have m: "i \<in> set (np_where_eq a 0)" using zi(1) by (simp add: np_where_eq_def)
    have "sorted (np_where_eq a 0)" by (simp add: np_where_eq_def sorted_wrt_filter)
    then have "\<forall>j \<in> set rest. zi \<le> j" using w by simp
    with m w i show False by auto
  qed
  have "s = (a[0 := 0])[zi := a ! 0]"
  proof (cases "zi = 0")
    case True
    with zi have "a[0 := 0] = a" by (metis list_update_id)
    moreover have "s = a" using True assms w by (simp add: swap_zero_def)
    ultimately show ?thesis using True zi by simp
  next
    case False
    then show ?thesis using assms w zi by (simp add: swap_zero_def)
  qed
  with zi first show ?thesis by blast
qed

lemma py_slice_1_set: "set (py_slice xs 1 stop) \<subseteq> set (tl xs)"
proof (cases xs)
  case Nil
  then show ?thesis by (simp add: py_slice_def Let_def)
next
  case (Cons a list)
  then have "py_slice xs 1 stop = take (nat ((if stop < 0 then max (stop + int (length xs)) 0 else min stop (int (length xs))) - 1)) list"
    by (simp add: py_slice_def Let_def)
  then show ?thesis using Cons by (auto dest: in_set_takeD)
qed

lemma py_slice_1_take:
  assumes "0 \<le> k"
  shows "py_slice xs 1 (k + 1) = take (nat k) (tl xs)"
proof (cases xs)
  case Nil
  then show ?thesis by (simp add: py_slice_def Let_def)
next
  case (Cons a list)
  show ?thesis
  proof (cases "k + 1 \<le> int (length xs)")
    case True
    then show ?thesis using Cons assms by (simp add: py_slice_def Let_def min_def)
  next
    case False
    then show ?thesis using Cons assms by (simp add: py_slice_def Let_def min_def)
  qed
qed

lemma top_k_loop_char:
  assumes "\<forall>row \<in> set rows. 1 \<le> row"
  shows "top_k_loop txts thr nrm rows acc =
     (if \<forall>row \<in> set (filter (meets_threshold thr nrm) rows). row \<le> length txts
      then Inr (acc @ map (\<lambda>row. Document (txts ! (row - 1))) (filter (meets_threshold thr nrm) rows))
      else Inl IndexError)"
  using assms
proof (induction rows arbitrary: acc)
  case Nil
  then show ?case by simp
next
  case (Cons row rows)
  then have r: "1 \<le> row" and rs: "\<forall>row \<in> set rows. 1 \<le> row" by simp_all
  have ix: "py_index txts (int row - 1) =
      (if row \<le> length txts then Inr (txts ! (row - 1)) else Inl IndexError)"
    using r by (auto simp: py_index_def Let_def nat_diff_distrib')
  show ?case
  proof (cases "meets_threshold thr nrm row")
    case True
    then show ?thesis using Cons.IH[OF rs] ix by simp
  next
    case False
    then show ?thesis using Cons.IH[OF rs] by simp
  qed
qed

lemma normalized_range:
  fixes similarities :: "real list"
  assumes "s \<in> set similarities"
  shows "0 \<le> (s - Min (set similarities)) / (Max (set similarities) - Min (set similarities) + 1 / 10 ^ 6)"
    and "(s - Min (set similarities)) / (Max (set similarities) - Min (set similarities) + 1 / 10 ^ 6) \<le> 1"
proof -
  have lo: "Min (set similarities) \<le> s" using assms by simp
  have hi: "s \<le> Max (set similarities)" using assms by simp
  let ?d = "Max (set similarities) - Min (set similarities) + 1 / 10 ^ 6"
  have d: "0 < ?d" using lo hi by simp
  show "0 \<le> (s - Min (set similarities)) / ?d" using lo d by simp
  have "s - Min (set similarities) \<le> ?d" using hi by simp
  then show "(s - Min (set similarities)) / ?d \<le> 1" using d by simp
qed


lemma py_slice_distinct: "distinct xs \<Longrightarrow> distinct (py_slice xs a b)"
  by (simp add: py_slice_def Let_def)


lemma np_concatenate_Inr:
  "np_concatenate qv ix = Inr x \<Longrightarrow> \<exists>rows. ix = Array2 rows \<and> x = qv # rows"
  by (cases ix) (auto split: if_splits)

text \<open>The rows that the loop of a successful call walks, and what it makes of them.\<close>

lemma walked_rows:
  assumes "swap_zero (np_argsort (map uminus sims)) = Inr s" and "sims \<noteq> []"
  shows "\<forall>row \<in> set (py_slice s 1 stop). 1 \<le> row \<and> row < length sims"
    and "distinct (py_slice s 1 stop)"
    and "length s = length sims"
proof -
  let ?a = "np_argsort (map uminus sims)"
  have d: "distinct ?a" and st: "set ?a = {0..<length sims}" and n: "0 < length sims"
    using assms(2) by (simp_all add: np_argsort_props)
  from swap_zero_tail[OF assms(1) d st n] py_slice_1_set[of s stop]
  show "\<forall>row \<in> set (py_slice s 1 stop). 1 \<le> row \<and> row < length sims" by blast
  from swap_zero_perm[OF d st n] assms(1)
  have "distinct s" and l: "length s = length ?a" by auto
  then show "distinct (py_slice s 1 stop)" by (simp add: py_slice_distinct)
  show "length s = length sims" using l by (simp add: np_argsort_props)
qed

lemma swap_zero_argsort_ok:
  assumes "sims \<noteq> []"
  shows "\<exists>s. swap_zero (np_argsort (map uminus sims)) = Inr s"
proof -
  let ?a = "np_argsort (map uminus sims)"
  have d: "distinct ?a" and st: "set ?a = {0..<length sims}" and n: "0 < length sims"
    using assms by (simp_all add: np_argsort_props)
  from swap_zero_perm[OF d st n] show ?thesis by blast
qed

lemma get_relevant_documents_unfold:
  assumes "importable svm" and "embeddings self query = Inr qv"
    and "index self = Array2 rows" and "list_all (\<lambda>r. length r = length qv) rows"
    and "fit svm (qv # rows) ((replicate (Suc (length rows)) 0)[0 := 1]) = Inr clf"
    and "swap_zero (np_argsort (map uminus (decision_function clf (qv # rows)))) = Inr s"
  shows "get_relevant_documents svm self query =
     top_k_loop (texts self) (relevancy_threshold self)
       (normalized_similarities (decision_function clf (qv # rows)))
       (py_slice s 1 (svm_k self + 1)) []"
  using assms by (simp add: get_relevant_documents_def)

lemma get_relevant_documents_Inr:
  assumes "get_relevant_documents svm self query = Inr docs"
  shows "\<exists>qv rows clf s.
     importable svm \<and> embeddings self query = Inr qv \<and> index self = Array2 rows
     \<and> list_all (\<lambda>r. length r = length qv) rows
     \<and> fit svm (qv # rows) ((replicate (Suc (length rows)) 0)[0 := 1]) = Inr clf
     \<and> swap_zero (np_argsort (map uminus (decision_function clf (qv # rows)))) = Inr s
     \<and> top_k_loop (texts self) (relevancy_threshold self)
          (normalized_similarities (decision_function clf (qv # rows)))
          (py_slice s 1 (svm_k self + 1)) [] = Inr docs"
proof -
  from assms have imp: "importable svm"
    by (auto simp: get_relevant_documents_def split: if_splits)
  from assms imp obtain qv where qv: "embeddings self query = Inr qv"
    by (cases "embeddings self query") (auto simp: get_relevant_documents_def)
  from assms imp qv obtain x where x: "np_concatenate qv (index self) = Inr x"
    by (cases "np_concatenate qv (index self)") (auto simp: get_relevant_documents_def)
  then obtain rows where rows: "index self = Array2 rows" "x = qv # rows"
    using np_concatenate_Inr by blast
  with x have dims: "list_all (\<lambda>r. length r = length qv) rows"
    by (auto split: if_splits)
  from assms imp qv x rows obtain clf
    where clf: "fit svm (qv # rows) ((replicate (Suc (length rows)) 0)[0 := 1]) = Inr clf"
    by (cases "fit svm (qv # rows) ((replicate (Suc (length rows)) 0)[0 := 1])")
       (auto simp: get_relevant_documents_def)
  obtain s where s: "swap_zero (np_argsort (map uminus (decision_function clf (qv # rows)))) = Inr s"
    using swap_zero_argsort_ok[of "decision_function clf (qv # rows)"]
    by (auto simp: decision_function_def)
  from get_relevant_documents_unfold[OF imp qv rows(1) dims clf s] assms imp qv rows dims clf s
  show ?thesis by auto
qed

text \<open>A successful call returns the documents of some rows of the index, in the order walked.\<close>

lemma get_relevant_documents_rows:
  assumes "get_relevant_documents svm self query = Inr docs"
  shows "\<exists>qv rows clf s.
     embeddings self query = Inr qv \<and> index self = Array2 rows
     \<and> swap_zero (np_argsort (map uminus (decision_function clf (qv # rows)))) = Inr s
     \<and> length s = Suc (length rows)
     \<and> (\<forall>row \<in> set (py_slice s 1 (svm_k self + 1)). 1 \<le> row \<and> row \<le> length rows)
     \<and> distinct (py_slice s 1 (svm_k self + 1))
     \<and> (\<forall>row \<in> set (filter (meets_threshold (relevancy_threshold self)
            (normalized_similarities (decision_function clf (qv # rows))))
            (py_slice s 1 (svm_k self + 1))). row \<le> length (texts self))
     \<and> docs = map (\<lambda>row. Document (texts self ! (row - 1)))
          (filter (meets_threshold (relevancy_threshold self)
            (normalized_similarities (decision_function clf (qv # rows))))
            (py_slice s 1 (svm_k self + 1)))"
proof -
  from get_relevant_documents_Inr[OF assms] obtain qv rows clf s where
    qv: "embeddings self query = Inr qv" and ix: "index self = Array2 rows"
    and s: "swap_zero (np_argsort (map uminus (decision_function clf (qv # rows)))) = Inr s"
    and loop: "top_k_loop (texts self) (relevancy_threshold self)
          (normalized_similarities (decision_function clf (qv # rows)))
          (py_slice s 1 (svm_k self + 1)) [] = Inr docs"
    by blast
  let ?sims = "decision_function clf (qv # rows)"
  have ne: "?sims \<noteq> []" and len: "length ?sims = Suc (length rows)"
    by (simp_all add: decision_function_def)
  note w = walked_rows(1)[OF s ne, of "svm_k self + 1"]
    walked_rows(2)[OF s ne, of "svm_k self + 1"] walked_rows(3)[OF s ne]
  have ge1: "\<forall>row \<in> set (py_slice s 1 (svm_k self + 1)). 1 \<le> row"
    using w(1) by blast
  have rng: "\<forall>row \<in> set (py_slice s 1 (svm_k self + 1)). 1 \<le> row \<and> row \<le> length rows"
    using w(1) len by auto
  from loop top_k_loop_char[OF ge1, of "texts self" "relevancy_threshold self"
      "normalized_similarities ?sims" "[]"]
  have "(\<forall>row \<in> set (filter (meets_threshold (relevancy_threshold self)
            (normalized_similarities ?sims)) (py_slice s 1 (svm_k self + 1))).
          row \<le> length (texts self))
     \<and> docs = map (\<lambda>row. Document (texts self ! (row - 1)))
          (filter (meets_threshold (relevancy_threshold self)
            (normalized_similarities ?sims)) (py_slice s 1 (svm_k self + 1)))"
    by (auto split: if_splits)
  with qv ix s rng w(2) w(3) len show ?thesis by auto
qed

subsection \<open>The toy retriever, evaluated\<close>

lemma toy_sims:
  "decision_function toy_model ([9/10, 1/10] # [[1, 0], [0, 1], [-1, 0]])
     = [2/5, 1/2, -1/2, -3/2]"
  by (simp add: decision_function_def dot_def toy_model_def)

lemma toy_order: "np_argsort (map uminus [2/5, 1/2, -1/2, -3/2 :: real]) = [1, 0, 2, 3]"
  by (simp add: np_argsort_def upt_rec)

lemma toy_swap: "swap_zero [1, 0, 2, 3] = Inr [0, 1, 2, 3]"
  by (simp add: swap_zero_def np_where_eq_def upt_rec)

lemma toy_norm:
  "normalized_similarities [2/5, 1/2, -1/2, -3/2]
     = [1900000/2000001, 2000000/2000001, 1000000/2000001, 0]"
  by (simp add: normalized_similarities_def)

lemma toy_run:
  "get_relevant_documents toy_svm (toy_retriever k thr) ''kitten''
   = top_k_loop [''cat'', ''dog'', ''car''] thr
       [1900000/2000001, 2000000/2000001, 1000000/2000001, 0]
       (py_slice [0, 1, 2, 3] 1 (k + 1)) []"
proof -
  let ?r = "toy_retriever k thr"
  have 1: "importable toy_svm" by (simp add: toy_svm_def)
  have 2: "embeddings ?r ''kitten'' = Inr [9/10, 1/10]"
    by (simp add: toy_retriever_def toy_embed_def)
  have 3: "index ?r = Array2 [[1, 0], [0, 1], [-1, 0]]" by (simp add: toy_retriever_def)
  have 4: "list_all (\<lambda>r. length r = length [9/10, 1/10 :: real]) [[1, 0], [0, 1], [-1, 0]]"
    by simp
  have 5: "fit toy_svm ([9/10, 1/10] # [[1, 0], [0, 1], [-1, 0]])
             ((replicate (Suc (length [[1, 0], [0, 1], [-1, 0 :: real]])) 0)[0 := 1]) = Inr toy_model"
    by (simp add: toy_svm_def)
  have 6: "swap_zero (np_argsort (map uminus
             (decision_function toy_model ([9/10, 1/10] # [[1, 0], [0, 1], [-1, 0]]))))
           = Inr [0, 1, 2, 3]"
    by (simp only: toy_sims toy_order toy_swap)
  have "get_relevant_documents toy_svm ?r ''kitten''
    = top_k_loop (texts ?r) (relevancy_threshold ?r)
       (normalized_similarities (decision_function toy_model ([9/10, 1/10] # [[1, 0], [0, 1], [-1, 0]])))
       (py_slice [0, 1, 2, 3] 1 (svm_k ?r + 1)) []"
    by (rule get_relevant_documents_unfold[OF 1 2 3 4 5 6])
  also have "\<dots> = top_k_loop [''cat'', ''dog'', ''car''] thr
       [1900000/2000001, 2000000/2000001, 1000000/2000001, 0]
       (py_slice [0, 1, 2, 3] 1 (k + 1)) []"
    by (simp only: toy_sims toy_norm) (simp add: toy_retriever_def)
  finally show ?thesis .
qed
lemma toy_k2: "get_relevant_documents toy_svm (toy_retriever 2 None) ''kitten''
  = Inr [Document ''cat'', Document ''dog'']"
  by (simp add: toy_run py_slice_def meets_threshold_def py_index_def)

lemma toy_k5: "get_relevant_documents toy_svm (toy_retriever 5 None) ''kitten''
  = Inr [Document ''cat'', Document ''dog'', Document ''car'']"
  by (simp add: toy_run py_slice_def meets_threshold_def py_index_def)







section \<open>Claims about the SVM retriever\<close>

text \<open>
  C1.  A successful call never returns the injected query row.  The order that the loop
  walks is the descending order of the decision values with a single exchange: row 0,
  found at its first position \<open>zero_index\<close>, and the row at the front change places.  Row 0
  is at the front of it, so no row of the slice from position 1 is row 0: each is a row
  \<open>1..N\<close> of the augmented set, which row number minus one maps back to a row of the
  index, and the returned documents are the texts of those rows of the slice that pass the
  threshold, in the order of the slice.
\<close>

theorem query_row_never_returned:
  assumes "get_relevant_documents svm self query = Inr docs"
  shows "\<exists>query_embeds rows clf zero_index sorted_ix.
     embeddings self query = Inr query_embeds \<and> index self = Array2 rows
     \<and> fit svm (query_embeds # rows) ((replicate (Suc (length rows)) 0)[0 := 1]) = Inr clf
     \<and> zero_index < Suc (length rows)
     \<and> np_argsort (map uminus (decision_function clf (query_embeds # rows))) ! zero_index = 0
     \<and> sorted_ix = (np_argsort (map uminus (decision_function clf (query_embeds # rows))))
                     [0 := 0,
                      zero_index :=
                        np_argsort (map uminus (decision_function clf (query_embeds # rows))) ! 0]
     \<and> sorted_ix ! 0 = 0
     \<and> (\<forall>row \<in> set (py_slice sorted_ix 1 (svm_k self + 1)).
           row \<noteq> 0 \<and> row - 1 < length rows)
     \<and> (\<forall>row \<in> set (filter (meets_threshold (relevancy_threshold self)
              (normalized_similarities (decision_function clf (query_embeds # rows))))
              (py_slice sorted_ix 1 (svm_k self + 1))). row - 1 < length (texts self))
     \<and> docs = map (\<lambda>row. Document (texts self ! (row - 1)))
          (filter (meets_threshold (relevancy_threshold self)
             (normalized_similarities (decision_function clf (query_embeds # rows))))
             (py_slice sorted_ix 1 (svm_k self + 1)))"
proof -
  from get_relevant_documents_Inr[OF assms] obtain qv rows clf s where
    qv: "embeddings self query = Inr qv" and ix: "index self = Array2 rows"
    and clf: "fit svm (qv # rows) ((replicate (Suc (length rows)) 0)[0 := 1]) = Inr clf"
    and s: "swap_zero (np_argsort (map uminus (decision_function clf (qv # rows)))) = Inr s"
    and loop: "top_k_loop (texts self) (relevancy_threshold self)
          (normalized_similarities (decision_function clf (qv # rows)))
          (py_slice s 1 (svm_k self + 1)) [] = Inr docs"
    by blast
  let ?sims = "decision_function clf (qv # rows)"
  let ?a = "np_argsort (map uminus ?sims)"
  let ?sel = "filter (meets_threshold (relevancy_threshold self) (normalized_similarities ?sims))
                (py_slice s 1 (svm_k self + 1))"
  have ne: "?sims \<noteq> []" and len: "length ?sims = Suc (length rows)"
    by (simp_all add: decision_function_def)
  have la: "length ?a = Suc (length rows)" using len by (simp add: np_argsort_props)
  from swap_zero_shape[OF s] obtain zi where
    zi: "zi < length ?a" "?a ! zi = 0" and sh: "s = (?a[0 := 0])[zi := ?a ! 0]"
    by blast
  have d: "distinct ?a" and st: "set ?a = {0..<length ?sims}" and n: "0 < length ?sims"
    using ne by (simp_all add: np_argsort_props)
  from swap_zero_perm[OF d st n] s have s0: "s ! 0 = 0" by auto
  have w: "\<forall>row \<in> set (py_slice s 1 (svm_k self + 1)). 1 \<le> row \<and> row < length ?sims"
    by (rule walked_rows(1)[OF s ne])
  then have ge1: "\<forall>row \<in> set (py_slice s 1 (svm_k self + 1)). 1 \<le> row" by blast
  have rng: "\<forall>row \<in> set (py_slice s 1 (svm_k self + 1)). row \<noteq> 0 \<and> row - 1 < length rows"
    using w len by auto
  from loop top_k_loop_char[OF ge1, of "texts self" "relevancy_threshold self"
      "normalized_similarities ?sims" "[]"]
  have tx: "\<forall>row \<in> set ?sel. row \<le> length (texts self)"
    and docs: "docs = map (\<lambda>row. Document (texts self ! (row - 1))) ?sel"
    by (auto split: if_splits)
  have tx': "\<forall>row \<in> set ?sel. row - 1 < length (texts self)"
    using tx ge1 by fastforce
  from qv ix clf zi la sh s0 rng tx' docs show ?thesis by auto
qed

text \<open>The toy retriever with \<open>k = 2\<close>: the rows are 1 and 2.\<close>

theorem query_row_never_returned_witness:
  "get_relevant_documents toy_svm (toy_retriever 2 None) ''kitten''
     = Inr [Document ''cat'', Document ''dog'']
   \<and> np_argsort (map uminus (decision_function toy_model
         ([9/10, 1/10] # [[1, 0], [0, 1], [-1, 0]]))) = [1, 0, 2, 3]
   \<and> py_slice ([1, 0, 2, 3][0 := 0, 1 := [1, 0, 2, 3] ! 0]) 1 (svm_k (toy_retriever 2 None) + 1)
       = [1, 2 :: nat]
   \<and> (\<exists>query_embeds rows clf zero_index sorted_ix.
     embeddings (toy_retriever 2 None) ''kitten'' = Inr query_embeds
     \<and> index (toy_retriever 2 None) = Array2 rows
     \<and> fit toy_svm (query_embeds # rows) ((replicate (Suc (length rows)) 0)[0 := 1]) = Inr clf
     \<and> zero_index < Suc (length rows)
     \<and> np_argsort (map uminus (decision_function clf (query_embeds # rows))) ! zero_index = 0
     \<and> sorted_ix = (np_argsort (map uminus (decision_function clf (query_embeds # rows))))
                     [0 := 0,
                      zero_index :=
                        np_argsort (map uminus (decision_function clf (query_embeds # rows))) ! 0]
     \<and> sorted_ix ! 0 = 0
     \<and> (\<forall>row \<in> set (py_slice sorted_ix 1 (svm_k (toy_retriever 2 None) + 1)).
           row \<noteq> 0 \<and> row - 1 < length rows)
     \<and> (\<forall>row \<in> set (filter (meets_threshold (relevancy_threshold (toy_retriever 2 None))
              (normalized_similarities (decision_function clf (query_embeds # rows))))
              (py_slice sorted_ix 1 (svm_k (toy_retriever 2 None) + 1))).
           row - 1 < length (texts (toy_retriever 2 None)))
     \<and> [Document ''cat'', Document ''dog'']
         = map (\<lambda>row. Document (texts (toy_retriever 2 None) ! (row - 1)))
          (filter (meets_threshold (relevancy_threshold (toy_retriever 2 None))
             (normalized_similarities (decision_function clf (query_embeds # rows))))
             (py_slice sorted_ix 1 (svm_k (toy_retriever 2 None) + 1))))"
proof -
  have a: "np_argsort (map uminus (decision_function toy_model
         ([9/10, 1/10] # [[1, 0], [0, 1], [-1, 0]]))) = [1, 0, 2, 3]"
    by (simp only: toy_sims toy_order)
  have b: "py_slice ([1, 0, 2, 3][0 := 0, 1 := [1, 0, 2, 3] ! 0]) 1
             (svm_k (toy_retriever 2 None) + 1) = [1, 2 :: nat]"
    by (simp add: py_slice_def toy_retriever_def)
  show ?thesis
    by (intro conjI) (rule toy_k2 a b query_row_never_returned[OF toy_k2])+
qed

text \<open>
  C2.  For \<open>k \<ge> 0\<close> a returned list has at most \<open>k\<close> documents and at most as many as
  the index has rows; without a threshold it has exactly \<open>min k rows\<close> of them, so exactly
  \<open>k\<close> when the index has at least \<open>k\<close> rows and never more than there are rows.  A
  short result is a success: when scikit-learn is importable, the embedder, the concatenation
  and the fit succeed and every row has its text, the call returns a list whatever \<open>k\<close> is.
\<close>

theorem result_cardinality:
  assumes "0 \<le> svm_k self"
  shows "(\<forall>docs. get_relevant_documents svm self query = Inr docs \<longrightarrow>
            length docs \<le> nat (svm_k self) \<and> length docs \<le> num_rows (index self)
            \<and> (relevancy_threshold self = None \<longrightarrow>
                 length docs = min (nat (svm_k self)) (num_rows (index self))))
       \<and> (importable svm
           \<and> (\<exists>qv x clf. embeddings self query = Inr qv
                 \<and> np_concatenate qv (index self) = Inr x
                 \<and> fit svm x ((replicate (length x) 0)[0 := 1]) = Inr clf)
           \<and> num_rows (index self) \<le> length (texts self)
           \<longrightarrow> (\<exists>docs. get_relevant_documents svm self query = Inr docs))"
proof (intro conjI allI impI)
  fix docs assume ok: "get_relevant_documents svm self query = Inr docs"
  from get_relevant_documents_rows[OF ok] obtain qv rows clf s where
    ix: "index self = Array2 rows" and ls: "length s = Suc (length rows)"
    and docs: "docs = map (\<lambda>row. Document (texts self ! (row - 1)))
          (filter (meets_threshold (relevancy_threshold self)
            (normalized_similarities (decision_function clf (qv # rows))))
            (py_slice s 1 (svm_k self + 1)))"
    by blast
  have sl: "length (py_slice s 1 (svm_k self + 1)) = min (nat (svm_k self)) (length rows)"
    using ls by (simp add: py_slice_1_take[OF assms] min.commute)
  have le: "length docs \<le> length (py_slice s 1 (svm_k self + 1))"
    unfolding docs by simp
  show "length docs \<le> nat (svm_k self)" using le sl by simp
  show "length docs \<le> num_rows (index self)" using le sl ix by simp
  assume "relevancy_threshold self = None"
  then have "length docs = length (py_slice s 1 (svm_k self + 1))"
    unfolding docs by (simp add: meets_threshold_def)
  then show "length docs = min (nat (svm_k self)) (num_rows (index self))"
    using sl ix by simp
next
  assume a: "importable svm
           \<and> (\<exists>qv x clf. embeddings self query = Inr qv
                 \<and> np_concatenate qv (index self) = Inr x
                 \<and> fit svm x ((replicate (length x) 0)[0 := 1]) = Inr clf)
           \<and> num_rows (index self) \<le> length (texts self)"
  then obtain qv x clf where imp: "importable svm" and qv: "embeddings self query = Inr qv"
    and x: "np_concatenate qv (index self) = Inr x"
    and clf: "fit svm x ((replicate (length x) 0)[0 := 1]) = Inr clf"
    and tx: "num_rows (index self) \<le> length (texts self)"
    by blast
  from x obtain rows where ix: "index self = Array2 rows" and xe: "x = qv # rows"
    using np_concatenate_Inr by blast
  from x ix have dims: "list_all (\<lambda>r. length r = length qv) rows"
    by (auto split: if_splits)
  have clf': "fit svm (qv # rows) ((replicate (Suc (length rows)) 0)[0 := 1]) = Inr clf"
    using clf xe by simp
  let ?sims = "decision_function clf (qv # rows)"
  have ne: "?sims \<noteq> []" and len: "length ?sims = Suc (length rows)"
    by (simp_all add: decision_function_def)
  obtain s where s: "swap_zero (np_argsort (map uminus ?sims)) = Inr s"
    using swap_zero_argsort_ok[OF ne] by blast
  have rng: "\<forall>row \<in> set (py_slice s 1 (svm_k self + 1)). 1 \<le> row \<and> row < length ?sims"
    by (rule walked_rows(1)[OF s ne])
  then have ge1: "\<forall>row \<in> set (py_slice s 1 (svm_k self + 1)). 1 \<le> row" by blast
  have "\<forall>row \<in> set (filter (meets_threshold (relevancy_threshold self)
            (normalized_similarities ?sims)) (py_slice s 1 (svm_k self + 1))).
          row \<le> length (texts self)"
    using rng len tx ix by auto
  then show "\<exists>docs. get_relevant_documents svm self query = Inr docs"
    unfolding get_relevant_documents_unfold[OF imp qv ix dims clf' s]
      top_k_loop_char[OF ge1] by simp
qed

text \<open>The toy retriever with \<open>k = 5\<close> over three rows returns three documents.\<close>

theorem result_cardinality_witness:
  "0 \<le> svm_k (toy_retriever 5 None)
   \<and> get_relevant_documents toy_svm (toy_retriever 5 None) ''kitten''
       = Inr [Document ''cat'', Document ''dog'', Document ''car'']
   \<and> relevancy_threshold (toy_retriever 5 None) = None
   \<and> length [Document ''cat'', Document ''dog'', Document ''car'']
       = min (nat (svm_k (toy_retriever 5 None))) (num_rows (index (toy_retriever 5 None)))"
proof -
  have k: "0 \<le> svm_k (toy_retriever 5 None)" by (simp add: toy_retriever_def)
  have t: "relevancy_threshold (toy_retriever 5 None) = None" by (simp add: toy_retriever_def)
  from result_cardinality[OF k, of toy_svm "''kitten''"] toy_k5 t k show ?thesis by blast
qed




text \<open>
  C4.  The normalized score of every row of the augmented point set (row 0 is the query row)
  is its decision value minus the least one, over the spread of the decision values plus
  \<open>10\<^sup>-\<^sup>6\<close>, least and greatest taken over all rows; it lies between 0 and 1.
\<close>

theorem normalized_scores:
  assumes "similarities = decision_function clf (query_embeds # rows)"
    and "i \<le> length rows"
  shows "length (normalized_similarities similarities) = Suc (length rows)
     \<and> similarities ! 0 \<in> set similarities
     \<and> normalized_similarities similarities ! i
         = (similarities ! i - Min (set similarities))
           / (Max (set similarities) - Min (set similarities) + 1 / 10 ^ 6)
     \<and> 0 \<le> normalized_similarities similarities ! i
     \<and> normalized_similarities similarities ! i \<le> 1"
proof -
  have len: "length similarities = Suc (length rows)"
    using assms(1) by (simp add: decision_function_def)
  then have i: "i < length similarities" using assms(2) by simp
  then have mem: "similarities ! i \<in> set similarities" by simp
  have nth: "normalized_similarities similarities ! i
         = (similarities ! i - Min (set similarities))
           / (Max (set similarities) - Min (set similarities) + 1 / 10 ^ 6)"
    using i by (simp add: normalized_similarities_def Let_def)
  have "similarities ! 0 \<in> set similarities" using len by simp
  then show ?thesis
    using len nth normalized_range[OF mem] by (simp add: normalized_similarities_def Let_def)
qed

text \<open>The toy retriever's four decision values and the score of row 1.\<close>

theorem normalized_scores_witness:
  "[2/5, 1/2, -1/2, -3/2] = decision_function toy_model ([9/10, 1/10] # [[1, 0], [0, 1], [-1, 0]])
   \<and> (1::nat) \<le> length [[1, 0], [0, 1], [-1, 0 :: real]]
   \<and> normalized_similarities [2/5, 1/2, -1/2, -3/2] ! 1 = 2000000 / 2000001
   \<and> 0 \<le> normalized_similarities [2/5, 1/2, -1/2, -3/2] ! 1
   \<and> normalized_similarities [2/5, 1/2, -1/2, -3/2] ! 1 \<le> 1"
proof -
  have s: "[2/5, 1/2, -1/2, -3/2] = decision_function toy_model ([9/10, 1/10] # [[1, 0], [0, 1], [-1, 0]])"
    by (simp only: toy_sims)
  have i: "(1::nat) \<le> length [[1, 0], [0, 1], [-1, 0 :: real]]" by simp
  have v: "normalized_similarities [2/5, 1/2, -1/2, -3/2] ! 1 = 2000000 / 2000001"
    by (simp only: toy_norm) simp
  from normalized_scores[OF s i] s i v show ?thesis by blast
qed

text \<open>
  C5, as the code has it.  There is no check for an index without rows and no error of
  its own for it.  Once scikit-learn is importable and the query is embedded, an index of
  shape \<open>(0,)\<close>, which is what \<open>create_index\<close> builds from no texts, fails in the
  concatenation with \<open>ValueError\<close>; for a matrix without rows the outcome is the
  classifier's on the single query row: its error is raised as it is, and were it to return a
  separator the call would return the empty list.
\<close>

theorem empty_index_outcome:
  assumes "num_rows (index self) = 0" and "importable svm"
    and "embeddings self query = Inr query_embeds"
  shows "get_relevant_documents svm self query =
     (case index self of
        Array1 _ \<Rightarrow> Inl ValueError
      | Array2 _ \<Rightarrow> (case fit svm [query_embeds] [1] of Inl e \<Rightarrow> Inl e | Inr clf \<Rightarrow> Inr []))"
proof (cases "index self")
  case (Array1 xs)
  then show ?thesis using assms by (simp add: get_relevant_documents_def)
next
  case (Array2 rows)
  with assms(1) have rows: "rows = []" by simp
  show ?thesis
  proof (cases "fit svm [query_embeds] [1]")
    case (Inl e)
    then show ?thesis using assms Array2 rows by (simp add: get_relevant_documents_def)
  next
    case (Inr clf)
    have a: "np_argsort (map uminus (decision_function clf [query_embeds])) = [0]"
      by (simp add: np_argsort_def decision_function_def)
    have b: "swap_zero [0] = Inr [0]"
      by (simp add: swap_zero_def np_where_eq_def)
    have c: "py_slice [0::nat] 1 (svm_k self + 1) = []"
      by (simp add: py_slice_def Let_def)
    show ?thesis using assms Array2 rows Inr
      by (simp add: get_relevant_documents_def a b c)
  qed
qed

text \<open>The toy classifier on the index without rows.\<close>

theorem empty_index_outcome_witness:
  "num_rows (index empty_retriever) = 0 \<and> importable toy_svm
   \<and> embeddings empty_retriever ''kitten'' = Inr [9/10, 1/10]
   \<and> get_relevant_documents toy_svm empty_retriever ''kitten'' = Inl ValueError"
proof -
  have 1: "num_rows (index empty_retriever) = 0" by (simp add: empty_retriever_def)
  have 2: "importable toy_svm" by (simp add: toy_svm_def)
  have 3: "embeddings empty_retriever ''kitten'' = Inr [9/10, 1/10]"
    by (simp add: empty_retriever_def toy_embed_def)
  have "get_relevant_documents toy_svm empty_retriever ''kitten'' = Inl ValueError"
    using empty_index_outcome[OF 1 2 3] by (simp add: empty_retriever_def toy_svm_def)
  with 1 2 3 show ?thesis by blast
qed

text \<open>
  C5, as the spec has it, fails: on the index without rows the call fails with the same
  \<open>ValueError\<close> as on an index of one row whose length is not the query vector's.
\<close>

theorem empty_index_error_not_distinct:
  "num_rows (index empty_retriever) = 0
   \<and> get_relevant_documents toy_svm empty_retriever ''kitten'' = Inl ValueError
   \<and> num_rows (index misshaped_retriever) = 1
   \<and> get_relevant_documents toy_svm misshaped_retriever ''kitten'' = Inl ValueError"
  by (simp add: get_relevant_documents_def empty_retriever_def misshaped_retriever_def
      toy_svm_def toy_embed_def)

text \<open>
  C9.  \<open>from_documents\<close> gives the same retriever whatever the metadata of the documents
  is, and every document that this retriever returns has the empty metadata and the
  page content of one of the documents.
\<close>

theorem metadata_discarded:
  "from_documents (map (\<lambda>d. d\<lparr>metadata := m d\<rparr>) documents) emb kwargs
     = from_documents documents emb kwargs
   \<and> (\<forall>self docs. from_documents documents emb kwargs = Inr self
          \<and> get_relevant_documents svm self query = Inr docs
        \<longrightarrow> (\<forall>d \<in> set docs. metadata d = []
               \<and> page_content d \<in> page_content ` set documents))"
proof (intro conjI allI impI)
  show "from_documents (map (\<lambda>d. d\<lparr>metadata := m d\<rparr>) documents) emb kwargs
     = from_documents documents emb kwargs"
    by (cases documents) (simp_all add: from_documents_def comp_def)
next
  fix self docs
  assume a: "from_documents documents emb kwargs = Inr self
          \<and> get_relevant_documents svm self query = Inr docs"
  then have tx: "texts self = map page_content documents"
    by (cases documents)
       (auto simp: from_documents_def from_texts_def comp_def Let_def split: sum.splits)
  from a get_relevant_documents_rows[of svm self query docs] obtain sel where
    sel: "\<forall>row \<in> set sel. 1 \<le> row \<and> row \<le> length (texts self)"
    and docs: "docs = map (\<lambda>row. Document (texts self ! (row - 1))) sel"
    by (metis (no_types, lifting) filter_is_subset subsetD)
  show "\<forall>d \<in> set docs. metadata d = [] \<and> page_content d \<in> page_content ` set documents"
  proof
    fix d assume "d \<in> set docs"
    then obtain row where r: "row \<in> set sel" and d: "d = Document (texts self ! (row - 1))"
      using docs by auto
    from sel r have "row - 1 < length documents" using tx by auto
    then have "map page_content documents ! (row - 1) \<in> page_content ` set documents"
      by simp
    then show "metadata d = [] \<and> page_content d \<in> page_content ` set documents"
      using d tx by (simp add: Document_def)
  qed
qed

text \<open>Three documents with metadata give the toy retriever, whose results carry none.\<close>

theorem metadata_discarded_witness:
  "from_documents toy_documents toy_embed \<lparr>kw_k = Some 2, kw_relevancy_threshold = None\<rparr>
     = Inr (toy_retriever 2 None)
   \<and> get_relevant_documents toy_svm (toy_retriever 2 None) ''kitten''
       = Inr [Document ''cat'', Document ''dog'']
   \<and> map metadata toy_documents = [[(''source'', ''a.txt'')], [(''source'', ''b.txt'')], []]
   \<and> map metadata [Document ''cat'', Document ''dog''] = [[], []]"
proof -
  have f: "from_documents toy_documents toy_embed \<lparr>kw_k = Some 2, kw_relevancy_threshold = None\<rparr>
     = Inr (toy_retriever 2 None)"
    by (simp add: from_documents_def from_texts_def create_index_def np_array_def
        toy_documents_def toy_retriever_def toy_embed_def)
  from metadata_discarded[of "\<lambda>d. []" toy_documents toy_embed
      "\<lparr>kw_k = Some 2, kw_relevancy_threshold = None\<rparr>" toy_svm "''kitten''"] f toy_k2
  have "\<forall>d \<in> set [Document ''cat'', Document ''dog'']. metadata d = []"
    by blast
  then have "map metadata [Document ''cat'', Document ''dog''] = [[], []]" by simp
  moreover have "map metadata toy_documents
      = [[(''source'', ''a.txt'')], [(''source'', ''b.txt'')], []]"
    by (simp add: toy_documents_def)
  ultimately show ?thesis using f toy_k2 by blast
qed

section \<open>Properties of the Deep Lake search\<close>

subsection \<open>The record of calls, and selection by position\<close>

lemma embed_calls_append: "embed_calls (a @ b) = embed_calls a @ embed_calls b"
  by (induction a rule: embed_calls.induct) simp_all

lemma store_calls_append: "store_calls (a @ b) = store_calls a @ store_calls b"
  by (induction a rule: store_calls.induct) simp_all

lemma mmr_targets_append: "mmr_targets (a @ b) = mmr_targets a @ mmr_targets b"
  by (induction a rule: mmr_targets.induct) simp_all

lemma resolve_embedding_trace:
  "store_calls (fst (resolve_embedding ef emb q)) = []"
  "mmr_targets (fst (resolve_embedding ef emb q)) = []"
  by (auto simp: resolve_embedding_def split: option.splits sum.splits prod.splits)

lemma rank_result_trace:
  "store_calls (fst (rank_result lib args emb result)) = []"
  "embed_calls (fst (rank_result lib args emb result)) = []"
  "mmr_targets (fst (rank_result lib args emb result)) =
     (if arg_use_maximal_marginal_relevance args
      then [min (arg_k args) (int (length (res_text result)))] else [])"
  by (auto simp: rank_result_def Let_def split: sum.splits)

lemma select_Inr:
  "select xs idxs = Inr ys \<longleftrightarrow> (\<forall>i \<in> set idxs. i < length xs) \<and> ys = map (\<lambda>i. xs ! i) idxs"
proof (induction idxs arbitrary: ys)
  case Nil
  then show ?case by auto
next
  case (Cons i rest)
  show ?case
  proof (cases "i < length xs")
    case True
    then have ix: "py_index xs (int i) = Inr (xs ! i)" by (simp add: py_index_def)
    show ?thesis
    proof (cases "select xs rest")
      case (Inl e)
      with Cons.IH[of "map (\<lambda>i. xs ! i) rest"] ix True show ?thesis by auto
    next
      case (Inr zs)
      with Cons.IH[of zs] ix True show ?thesis by auto
    qed
  next
    case False
    then have "py_index xs (int i) = Inl IndexError" by (simp add: py_index_def)
    with False show ?thesis by simp
  qed
qed

lemma zip_selected:
  "zip (make_docs (map f idxs) (map g idxs)) (map h idxs)
     = map (\<lambda>i. (\<lparr>page_content = f i, metadata = g i\<rparr>, h i)) idxs"
  by (induction idxs) (simp_all add: make_docs_def)

lemma make_docs_selected:
  "make_docs (map f idxs) (map g idxs) = map (\<lambda>i. \<lparr>page_content = f i, metadata = g i\<rparr>) idxs"
  by (induction idxs) (simp_all add: make_docs_def)


subsection \<open>The greedy selection\<close>

lemma first_best_mem: "first_best f b xs \<in> set (b # xs)"
  by (induction xs arbitrary: b) auto

lemma mmr_greedy_length:
  "length (mmr_greedy sim q cands lam n selected remaining)
     = length selected + min n (length remaining)"
proof (induction sim q cands lam n selected remaining rule: mmr_greedy.induct)
  case (3 sim q cands lam n selected r rs)
  let ?best = "first_best (combined_score sim q cands lam selected) r rs"
  have "?best \<in> set (r # rs)" by (rule first_best_mem)
  then have "length (remove1 ?best (r # rs)) = length (r # rs) - 1"
    by (simp only: length_remove1 if_True)
  then have "length (remove1 ?best (r # rs)) = length rs" by simp
  with 3[OF refl] show ?case by (simp add: Let_def)
qed simp_all

lemma mmr_select_length: "length (mmr_select sim q cands k lam) = min k (length cands)"
  by (simp add: mmr_select_def mmr_greedy_length)

lemma toy_library_contract: "selects_at_most_target toy_library"
  by (auto simp: selects_at_most_target_def toy_library_def mmr_select_length
      split: option.splits ndarray.splits)

subsection \<open>The phases of a search\<close>

lemma rank_result_plain:
  assumes "\<not> arg_use_maximal_marginal_relevance args"
  shows "rank_result lib args emb result =
     ([], Inr (build_output (arg_return_score args) (res_score result) (res_text result)
                (res_metadata result)))"
  using assms by (simp add: rank_result_def)

lemma rank_result_mmr_Inr:
  assumes "arg_use_maximal_marginal_relevance args"
    and "snd (rank_result lib args emb result) = Inr out"
  shows "\<exists>indices.
     maximal_marginal_relevance lib emb (res_embedding result)
       (min (arg_k args) (int (length (res_text result))))
       (case arg_lambda_mult args of None \<Rightarrow> 1 / 2 | Some l \<Rightarrow> l) = Inr indices
     \<and> (\<forall>i \<in> set indices. i < length (res_score result) \<and> i < length (res_text result)
            \<and> i < length (res_metadata result))
     \<and> out = build_output (arg_return_score args) (map (\<lambda>i. res_score result ! i) indices)
               (map (\<lambda>i. res_text result ! i) indices)
               (map (\<lambda>i. res_metadata result ! i) indices)"
  using assms
  by (auto simp: rank_result_def Let_def select_Inr split: sum.splits)

lemma search_plain:
  assumes "\<not> truthy (arg_tql_query args)"
  shows "search lib self args =
     (case resolve_embedding
             (resolve_embedding_function (arg_embedding_function args)
                (self_embedding_function self))
             (arg_embedding args) (arg_query args) of
        (embedded, Inl e) \<Rightarrow> (embedded, Inl e)
      | (embedded, Inr emb) \<Rightarrow>
          (case to_ndarray lib emb of
             Inl e \<Rightarrow> (embedded, Inl e)
           | Inr emb' \<Rightarrow>
               (case vectorstore self (search_call args emb') of
                  Inl e \<Rightarrow> (embedded @ [Store_Call (search_call args emb')], Inl e)
                | Inr result \<Rightarrow>
                    (embedded @ [Store_Call (search_call args emb')]
                       @ fst (rank_result lib args emb' result),
                     snd (rank_result lib args emb' result)))))"
  using assms by (simp add: search_def Let_def split: prod.splits sum.splits)

lemma search_Inr:
  assumes "\<not> truthy (arg_tql_query args)" and "snd (search lib self args) = Inr out"
  shows "\<exists>embedded emb emb' result.
     resolve_embedding
       (resolve_embedding_function (arg_embedding_function args) (self_embedding_function self))
       (arg_embedding args) (arg_query args) = (embedded, Inr emb)
     \<and> to_ndarray lib emb = Inr emb'
     \<and> vectorstore self (search_call args emb') = Inr result
     \<and> snd (rank_result lib args emb' result) = Inr out
     \<and> fst (search lib self args)
         = embedded @ [Store_Call (search_call args emb')] @ fst (rank_result lib args emb' result)"
  using assms(2) unfolding search_plain[OF assms(1)]
  by (auto split: prod.splits sum.splits)

lemma search_store_calls:
  assumes "\<not> truthy (arg_tql_query args)"
  shows "store_calls (fst (search lib self args)) = []
       \<or> (\<exists>emb'. store_calls (fst (search lib self args)) = [search_call args emb'])"
proof -
  obtain embedded r where re: "resolve_embedding
       (resolve_embedding_function (arg_embedding_function args) (self_embedding_function self))
       (arg_embedding args) (arg_query args) = (embedded, r)"
    by (cases "resolve_embedding
       (resolve_embedding_function (arg_embedding_function args) (self_embedding_function self))
       (arg_embedding args) (arg_query args)") auto
  have e: "store_calls embedded = []"
    using resolve_embedding_trace(1)[of "resolve_embedding_function (arg_embedding_function args)
       (self_embedding_function self)" "arg_embedding args" "arg_query args"] re by simp
  show ?thesis unfolding search_plain[OF assms] re
    by (auto simp: e store_calls_append rank_result_trace split: sum.splits)
qed

lemma requested_k_search_call:
  "requested_k (search_call args emb) =
     (if arg_use_maximal_marginal_relevance args then arg_fetch_k args else Some (arg_k args))"
  by (simp add: search_call_def)

lemma output_length_build:
  "length txts = length scores \<Longrightarrow> length metadatas = length scores \<Longrightarrow>
   output_length (build_output rs scores txts metadatas) = length scores"
  by (simp add: build_output_def make_docs_def Let_def)

subsection \<open>The toy store, evaluated\<close>

lemma toy_mmr_pick:
  "mmr_select dot [1, 0] [[1, 0], [99/100, 1/100], [0, 1]] 2 (3/10) = [0, 2]"
  by (simp add: mmr_select_def numeral_2_eq_2 upt_rec combined_score_def redundancy_def
      dot_def Let_def)

lemma toy_fetch_3:
  "vectorstore toy_deeplake (search_call mmr_args emb) = Inr toy_tensors"
  by (simp add: toy_deeplake_def search_call_def mmr_args_def toy_args_def
      first_candidates_def toy_tensors_def)

lemma toy_mmr_rank:
  "rank_result toy_library mmr_args (Some (Array1 [1, 0])) toy_tensors =
     ([MMR_Call (Some (Array1 [1, 0])) [[1, 0], [99/100, 1/100], [0, 1]] 2 (3/10)],
      Inr (Scored [(\<lparr>page_content = ''a'', metadata = [(''id'', ''0'')]\<rparr>, 0),
                   (\<lparr>page_content = ''c'', metadata = [(''id'', ''2'')]\<rparr>, 1)]))"
proof -
  have m: "maximal_marginal_relevance toy_library (Some (Array1 [1, 0]))
      [[1, 0], [99/100, 1/100], [0, 1]] 2 (3/10) = Inr [0, 2]"
    using toy_mmr_pick by (simp add: toy_library_def)
  show ?thesis
    by (simp add: rank_result_def mmr_args_def toy_args_def toy_tensors_def m
        py_index_def build_output_def make_docs_def)
qed

lemma toy_mmr_run:
  "search toy_library toy_deeplake mmr_args =
     ([Embed_Call Configured ''query'',
       Store_Call (search_call mmr_args (Some (Array1 [1, 0]))),
       MMR_Call (Some (Array1 [1, 0])) [[1, 0], [99/100, 1/100], [0, 1]] 2 (3/10)],
      Inr (Scored [(\<lparr>page_content = ''a'', metadata = [(''id'', ''0'')]\<rparr>, 0),
                   (\<lparr>page_content = ''c'', metadata = [(''id'', ''2'')]\<rparr>, 1)]))"
proof -
  have t: "\<not> truthy (arg_tql_query mmr_args)" by (simp add: mmr_args_def toy_args_def)
  have r: "resolve_embedding
             (resolve_embedding_function (arg_embedding_function mmr_args)
                (self_embedding_function toy_deeplake))
             (arg_embedding mmr_args) (arg_query mmr_args)
           = ([Embed_Call Configured ''query''], Inr (Some (PyList [1, 0])))"
    by (simp add: resolve_embedding_def resolve_embedding_function_def mmr_args_def
        toy_args_def toy_deeplake_def toy_configured_def)
  have n: "to_ndarray toy_library (Some (PyList [1, 0])) = Inr (Some (Array1 [1, 0]))"
    by (simp add: to_ndarray_def toy_library_def)
  show ?thesis
    unfolding search_plain[OF t] r by (simp add: n toy_fetch_3 toy_mmr_rank)
qed

section \<open>Claims about the Deep Lake search\<close>

text \<open>
  C6.  Without a TQL query, which has a path of its own that embeds nothing, \<open>_search\<close>
  resolves the query embedding in this order.  A given embedding: no embedding function is
  called, and the store is searched with that embedding, converted to an array if it is a
  list and unchanged if it is an array.  Otherwise, with an explicit embedding function and a
  query: that function is the one called, once, on the query, and the store is searched
  with what it returns.  Otherwise, with a configured embedding function and a query:
  likewise for that one.  With no embedding and no function of either kind: \<open>ValueError\<close>,
  and nothing has been called, the store's search included.
\<close>

theorem embedding_precedence:
  assumes "\<not> truthy (arg_tql_query args)"
  shows "(\<forall>e. arg_embedding args = Some e \<longrightarrow>
            embed_calls (fst (search lib self args)) = []
            \<and> (\<forall>a. to_ndarray lib (Some e) = Inr a \<longrightarrow>
                  store_calls (fst (search lib self args)) = [search_call args a])
            \<and> (\<forall>a. e = NdArray a \<longrightarrow>
                  map requested_embedding (store_calls (fst (search lib self args))) = [Some a]))
       \<and> (\<forall>ef q. arg_embedding args = None \<and> arg_embedding_function args = Some ef
                  \<and> arg_query args = Some q \<and> q \<noteq> [] \<longrightarrow>
            embed_calls (fst (search lib self args)) = [(Explicit, q)]
            \<and> (\<forall>v a. callable_of ef q = Inr v \<and> to_ndarray lib (Some v) = Inr a \<longrightarrow>
                  store_calls (fst (search lib self args)) = [search_call args a]))
       \<and> (\<forall>g q. arg_embedding args = None \<and> arg_embedding_function args = None
                  \<and> self_embedding_function self = Some g
                  \<and> arg_query args = Some q \<and> q \<noteq> [] \<longrightarrow>
            embed_calls (fst (search lib self args)) = [(Configured, q)]
            \<and> (\<forall>v a. g q = Inr v \<and> to_ndarray lib (Some v) = Inr a \<longrightarrow>
                  store_calls (fst (search lib self args)) = [search_call args a]))
       \<and> (arg_embedding args = None \<and> arg_embedding_function args = None
            \<and> self_embedding_function self = None \<longrightarrow>
            search lib self args = ([], Inl ValueError))"
proof (intro conjI allI impI)
  fix e assume e: "arg_embedding args = Some e"
  show "embed_calls (fst (search lib self args)) = []"
    unfolding search_plain[OF assms]
    by (simp add: e resolve_embedding_def embed_calls_append rank_result_trace
        split: sum.splits)
  show "store_calls (fst (search lib self args)) = [search_call args a]"
    if "to_ndarray lib (Some e) = Inr a" for a
    unfolding search_plain[OF assms] using that
    by (simp add: e resolve_embedding_def store_calls_append rank_result_trace
        split: sum.splits)
  show "map requested_embedding (store_calls (fst (search lib self args))) = [Some a]"
    if "e = NdArray a" for a
    unfolding search_plain[OF assms] using that
    by (simp add: e resolve_embedding_def to_ndarray_def store_calls_append rank_result_trace
        search_call_def split: sum.splits)
next
  fix ef q
  assume a: "arg_embedding args = None \<and> arg_embedding_function args = Some ef
                  \<and> arg_query args = Some q \<and> q \<noteq> []"
  then have r: "resolve_embedding
       (resolve_embedding_function (arg_embedding_function args) (self_embedding_function self))
       (arg_embedding args) (arg_query args)
     = (case callable_of ef q of
          Inl e \<Rightarrow> ([Embed_Call Explicit q], Inl e)
        | Inr v \<Rightarrow> ([Embed_Call Explicit q], Inr (Some v)))"
    by (simp add: resolve_embedding_def resolve_embedding_function_def split: sum.splits)
  show "embed_calls (fst (search lib self args)) = [(Explicit, q)]"
    unfolding search_plain[OF assms] r
    by (simp add: embed_calls_append rank_result_trace split: sum.splits)
  show "store_calls (fst (search lib self args)) = [search_call args a']"
    if "callable_of ef q = Inr v \<and> to_ndarray lib (Some v) = Inr a'" for v a'
    unfolding search_plain[OF assms] r using that
    by (simp add: store_calls_append rank_result_trace split: sum.splits)
next
  fix g q
  assume a: "arg_embedding args = None \<and> arg_embedding_function args = None
                  \<and> self_embedding_function self = Some g
                  \<and> arg_query args = Some q \<and> q \<noteq> []"
  then have r: "resolve_embedding
       (resolve_embedding_function (arg_embedding_function args) (self_embedding_function self))
       (arg_embedding args) (arg_query args)
     = (case g q of
          Inl e \<Rightarrow> ([Embed_Call Configured q], Inl e)
        | Inr v \<Rightarrow> ([Embed_Call Configured q], Inr (Some v)))"
    by (simp add: resolve_embedding_def resolve_embedding_function_def split: sum.splits)
  show "embed_calls (fst (search lib self args)) = [(Configured, q)]"
    unfolding search_plain[OF assms] r
    by (simp add: embed_calls_append rank_result_trace split: sum.splits)
  show "store_calls (fst (search lib self args)) = [search_call args a']"
    if "g q = Inr v \<and> to_ndarray lib (Some v) = Inr a'" for v a'
    unfolding search_plain[OF assms] r using that
    by (simp add: store_calls_append rank_result_trace split: sum.splits)
next
  assume "arg_embedding args = None \<and> arg_embedding_function args = None
            \<and> self_embedding_function self = None"
  then show "search lib self args = ([], Inl ValueError)"
    unfolding search_plain[OF assms]
    by (simp add: resolve_embedding_def resolve_embedding_function_def)
qed

text \<open>
  The toy store: a vector beside an explicit function, an explicit function beside the
  configured one, the configured one alone, and an instance without any.
\<close>

theorem embedding_precedence_witness:
  "\<not> truthy (arg_tql_query toy_args)
   \<and> embed_calls (fst (search toy_library toy_deeplake given_vector_args)) = []
   \<and> store_calls (fst (search toy_library toy_deeplake given_vector_args))
       = [search_call given_vector_args (Some (Array1 [0, 1]))]
   \<and> embed_calls (fst (search toy_library toy_deeplake given_function_args))
       = [(Explicit, ''query'')]
   \<and> store_calls (fst (search toy_library toy_deeplake given_function_args))
       = [search_call given_function_args (Some (Array1 [0, 1]))]
   \<and> embed_calls (fst (search toy_library toy_deeplake toy_args)) = [(Configured, ''query'')]
   \<and> store_calls (fst (search toy_library toy_deeplake toy_args))
       = [search_call toy_args (Some (Array1 [1, 0]))]
   \<and> search toy_library bare_deeplake toy_args = ([], Inl ValueError)"
proof -
  have t: "\<not> truthy (arg_tql_query toy_args)" by (simp add: toy_args_def)
  have t1: "\<not> truthy (arg_tql_query given_vector_args)"
    by (simp add: given_vector_args_def toy_args_def)
  have t2: "\<not> truthy (arg_tql_query given_function_args)"
    by (simp add: given_function_args_def toy_args_def)
  have v: "arg_embedding given_vector_args = Some (NdArray (Array1 [0, 1]))"
    by (simp add: given_vector_args_def)
  have nv: "to_ndarray toy_library (Some (NdArray (Array1 [0, 1]))) = Inr (Some (Array1 [0, 1]))"
    by (simp add: to_ndarray_def)
  have f: "arg_embedding given_function_args = None
      \<and> arg_embedding_function given_function_args = Some (Callable toy_explicit)
      \<and> arg_query given_function_args = Some ''query'' \<and> ''query'' \<noteq> []"
    by (simp add: given_function_args_def toy_args_def)
  have nf: "callable_of (Callable toy_explicit) ''query'' = Inr (PyNested [[0, 1], [1, 1]])
      \<and> to_ndarray toy_library (Some (PyNested [[0, 1], [1, 1]])) = Inr (Some (Array1 [0, 1]))"
    by (simp add: toy_explicit_def to_ndarray_def toy_library_def np_array_def first_row_def)
  have c: "arg_embedding toy_args = None \<and> arg_embedding_function toy_args = None
      \<and> self_embedding_function toy_deeplake = Some toy_configured
      \<and> arg_query toy_args = Some ''query'' \<and> ''query'' \<noteq> []"
    by (simp add: toy_args_def toy_deeplake_def)
  have nc: "toy_configured ''query'' = Inr (PyList [1, 0])
      \<and> to_ndarray toy_library (Some (PyList [1, 0])) = Inr (Some (Array1 [1, 0]))"
    by (simp add: toy_configured_def to_ndarray_def toy_library_def)
  have b: "arg_embedding toy_args = None \<and> arg_embedding_function toy_args = None
      \<and> self_embedding_function bare_deeplake = None"
    by (simp add: toy_args_def bare_deeplake_def)
  note p1 = embedding_precedence[OF t1, of toy_library toy_deeplake,
      THEN conjunct1, rule_format, OF v]
  note p2 = embedding_precedence[OF t2, of toy_library toy_deeplake,
      THEN conjunct2, THEN conjunct1, rule_format, OF f]
  note p3 = embedding_precedence[OF t, of toy_library toy_deeplake,
      THEN conjunct2, THEN conjunct2, THEN conjunct1, rule_format, OF c]
  note p4 = embedding_precedence[OF t, of toy_library bare_deeplake,
      THEN conjunct2, THEN conjunct2, THEN conjunct2, rule_format, OF b]
  note r1 = p1[THEN conjunct1] p1[THEN conjunct2, THEN conjunct1, rule_format, OF nv]
  note r2 = p2[THEN conjunct1] p2[THEN conjunct2, rule_format, OF nf]
  note r3 = p3[THEN conjunct1] p3[THEN conjunct2, rule_format, OF nc]
  show ?thesis by (intro conjI) (rule t r1 r2 r3 p4)+
qed

text \<open>
  C7.  Without a TQL query, every search of the store asks for \<open>fetch_k\<close> candidates when
  maximal marginal relevance is used and for \<open>k\<close> otherwise.  When the call returns, the
  store was searched once and has answered, and with maximal marginal relevance the
  selection was run once with the target \<open>min k n\<close>, \<open>n\<close> the number of texts fetched; the
  returned list is then no longer than \<open>min k n\<close>, given that the selection, which the
  sources do not hold, returns no more positions than its target.
\<close>

theorem mmr_fetches_fetch_k:
  assumes "\<not> truthy (arg_tql_query args)"
  shows "(\<forall>c \<in> set (store_calls (fst (search lib self args))).
            requested_k c = (if arg_use_maximal_marginal_relevance args then arg_fetch_k args
                             else Some (arg_k args)))
       \<and> (\<forall>out. snd (search lib self args) = Inr out \<longrightarrow>
            (\<exists>c result. store_calls (fst (search lib self args)) = [c]
               \<and> vectorstore self c = Inr result
               \<and> (arg_use_maximal_marginal_relevance args \<longrightarrow>
                    mmr_targets (fst (search lib self args))
                      = [min (arg_k args) (int (length (res_text result)))]
                    \<and> (selects_at_most_target lib \<longrightarrow>
                         output_length out
                           \<le> nat (min (arg_k args) (int (length (res_text result))))))))"
proof (intro conjI allI impI)
  show "\<forall>c \<in> set (store_calls (fst (search lib self args))).
            requested_k c = (if arg_use_maximal_marginal_relevance args then arg_fetch_k args
                             else Some (arg_k args))"
    using search_store_calls[OF assms, of lib self]
    by (auto simp: requested_k_search_call)
next
  fix out assume ok: "snd (search lib self args) = Inr out"
  from search_Inr[OF assms ok] obtain embedded emb emb' result where
    re: "resolve_embedding
       (resolve_embedding_function (arg_embedding_function args) (self_embedding_function self))
       (arg_embedding args) (arg_query args) = (embedded, Inr emb)"
    and st: "vectorstore self (search_call args emb') = Inr result"
    and rk: "snd (rank_result lib args emb' result) = Inr out"
    and tr: "fst (search lib self args)
         = embedded @ [Store_Call (search_call args emb')] @ fst (rank_result lib args emb' result)"
    by blast
  have e1: "store_calls embedded = []" and e2: "mmr_targets embedded = []"
    using resolve_embedding_trace[of "resolve_embedding_function (arg_embedding_function args)
       (self_embedding_function self)" "arg_embedding args" "arg_query args"] re by simp_all
  have sc: "store_calls (fst (search lib self args)) = [search_call args emb']"
    unfolding tr by (simp add: store_calls_append e1 rank_result_trace)
  have mt: "arg_use_maximal_marginal_relevance args \<Longrightarrow>
      mmr_targets (fst (search lib self args))
        = [min (arg_k args) (int (length (res_text result)))]"
    unfolding tr by (simp add: mmr_targets_append e2 rank_result_trace)
  have len: "output_length out \<le> nat (min (arg_k args) (int (length (res_text result))))"
    if mmr: "arg_use_maximal_marginal_relevance args" and c: "selects_at_most_target lib"
  proof -
    from rank_result_mmr_Inr[OF mmr rk] obtain indices where
      m: "maximal_marginal_relevance lib emb' (res_embedding result)
           (min (arg_k args) (int (length (res_text result))))
           (case arg_lambda_mult args of None \<Rightarrow> 1 / 2 | Some l \<Rightarrow> l) = Inr indices"
      and out: "out = build_output (arg_return_score args)
               (map (\<lambda>i. res_score result ! i) indices)
               (map (\<lambda>i. res_text result ! i) indices)
               (map (\<lambda>i. res_metadata result ! i) indices)"
      by blast
    have "output_length out = length indices"
      unfolding out by (simp add: output_length_build)
    moreover have "length indices \<le> nat (min (arg_k args) (int (length (res_text result))))"
      using c m unfolding selects_at_most_target_def by blast
    ultimately show ?thesis by simp
  qed
  show "\<exists>c result. store_calls (fst (search lib self args)) = [c]
               \<and> vectorstore self c = Inr result
               \<and> (arg_use_maximal_marginal_relevance args \<longrightarrow>
                    mmr_targets (fst (search lib self args))
                      = [min (arg_k args) (int (length (res_text result)))]
                    \<and> (selects_at_most_target lib \<longrightarrow>
                         output_length out
                           \<le> nat (min (arg_k args) (int (length (res_text result))))))"
    using sc st mt len by blast
qed

text \<open>Two of three fetched candidates, by the greedy selection of the specification.\<close>

theorem mmr_fetches_fetch_k_witness:
  "\<not> truthy (arg_tql_query mmr_args) \<and> arg_use_maximal_marginal_relevance mmr_args
   \<and> selects_at_most_target toy_library
   \<and> snd (search toy_library toy_deeplake mmr_args)
       = Inr (Scored [(\<lparr>page_content = ''a'', metadata = [(''id'', ''0'')]\<rparr>, 0),
                      (\<lparr>page_content = ''c'', metadata = [(''id'', ''2'')]\<rparr>, 1)])
   \<and> map requested_k (store_calls (fst (search toy_library toy_deeplake mmr_args))) = [Some 3]
   \<and> arg_k mmr_args = 2 \<and> length (res_text toy_tensors) = 3
   \<and> mmr_targets (fst (search toy_library toy_deeplake mmr_args)) = [2]
   \<and> output_length (Scored [(\<lparr>page_content = ''a'', metadata = [(''id'', ''0'')]\<rparr>, 0),
                      (\<lparr>page_content = ''c'', metadata = [(''id'', ''2'')]\<rparr>, 1)]) \<le> 2"
proof -
  let ?out = "Scored [(\<lparr>page_content = ''a'', metadata = [(''id'', ''0'')]\<rparr>, 0),
                      (\<lparr>page_content = ''c'', metadata = [(''id'', ''2'')]\<rparr>, 1)]"
  have t: "\<not> truthy (arg_tql_query mmr_args)" by (simp add: mmr_args_def toy_args_def)
  have u: "arg_use_maximal_marginal_relevance mmr_args" by (simp add: mmr_args_def)
  have k: "arg_k mmr_args = 2" "arg_fetch_k mmr_args = Some 3" by (simp_all add: mmr_args_def)
  have n: "length (res_text toy_tensors) = 3" by (simp add: toy_tensors_def)
  have ok: "snd (search toy_library toy_deeplake mmr_args) = Inr ?out"
    by (simp add: toy_mmr_run)
  note th = mmr_fetches_fetch_k[OF t, of toy_library toy_deeplake]
  from th[THEN conjunct2, rule_format, OF ok] obtain c result where
    sc: "store_calls (fst (search toy_library toy_deeplake mmr_args)) = [c]"
    and st: "vectorstore toy_deeplake c = Inr result"
    and imp: "arg_use_maximal_marginal_relevance mmr_args \<longrightarrow>
       mmr_targets (fst (search toy_library toy_deeplake mmr_args))
         = [min (arg_k mmr_args) (int (length (res_text result)))]
       \<and> (selects_at_most_target toy_library \<longrightarrow>
            output_length ?out \<le> nat (min (arg_k mmr_args) (int (length (res_text result)))))"
    by (elim exE conjE)
  note mm = imp[rule_format, OF u, THEN conjunct1]
  note le = imp[rule_format, OF u, THEN conjunct2, rule_format, OF toy_library_contract]
  have c: "c = search_call mmr_args (Some (Array1 [1, 0]))"
    using sc by (simp add: toy_mmr_run)
  have r: "result = toy_tensors" using st unfolding c toy_fetch_3 by simp
  have rk: "map requested_k (store_calls (fst (search toy_library toy_deeplake mmr_args)))
      = [Some 3]"
    using th[THEN conjunct1] sc u k by simp
  have mm': "mmr_targets (fst (search toy_library toy_deeplake mmr_args)) = [2]"
    using mm unfolding r by (simp add: k n)
  have le': "output_length ?out \<le> 2"
    using le unfolding r by (simp add: k n)
  show ?thesis by (intro conjI) (rule t u toy_library_contract ok rk k(1) n mm' le')+
qed

text \<open>
  C8.  With maximal marginal relevance and \<open>return_score\<close>, a returned list pairs, for each
  position that the selection returned and in that order, the document of the store's text
  and metadata at the position with the store's score at the position: the scores are
  the store's, rearranged, and the selection hands back positions only.
\<close>

theorem mmr_scores_are_store_scores:
  assumes "\<not> truthy (arg_tql_query args)"
    and "arg_use_maximal_marginal_relevance args" and "arg_return_score args"
    and "snd (search lib self args) = Inr out"
  shows "\<exists>emb result indices.
     store_calls (fst (search lib self args)) = [search_call args emb]
     \<and> vectorstore self (search_call args emb) = Inr result
     \<and> maximal_marginal_relevance lib emb (res_embedding result)
         (min (arg_k args) (int (length (res_text result))))
         (case arg_lambda_mult args of None \<Rightarrow> 1 / 2 | Some l \<Rightarrow> l) = Inr indices
     \<and> (\<forall>i \<in> set indices. i < length (res_score result))
     \<and> out = Scored (map (\<lambda>i. (\<lparr>page_content = res_text result ! i,
                                 metadata = res_metadata result ! i\<rparr>,
                                res_score result ! i)) indices)"
proof -
  from search_Inr[OF assms(1,4)] obtain embedded emb emb' result where
    re: "resolve_embedding
       (resolve_embedding_function (arg_embedding_function args) (self_embedding_function self))
       (arg_embedding args) (arg_query args) = (embedded, Inr emb)"
    and st: "vectorstore self (search_call args emb') = Inr result"
    and rk: "snd (rank_result lib args emb' result) = Inr out"
    and tr: "fst (search lib self args)
         = embedded @ [Store_Call (search_call args emb')] @ fst (rank_result lib args emb' result)"
    by blast
  have e1: "store_calls embedded = []"
    using resolve_embedding_trace(1)[of "resolve_embedding_function (arg_embedding_function args)
       (self_embedding_function self)" "arg_embedding args" "arg_query args"] re by simp
  have sc: "store_calls (fst (search lib self args)) = [search_call args emb']"
    unfolding tr by (simp add: store_calls_append e1 rank_result_trace)
  from rank_result_mmr_Inr[OF assms(2) rk] obtain indices where
    m: "maximal_marginal_relevance lib emb' (res_embedding result)
         (min (arg_k args) (int (length (res_text result))))
         (case arg_lambda_mult args of None \<Rightarrow> 1 / 2 | Some l \<Rightarrow> l) = Inr indices"
    and rng: "\<forall>i \<in> set indices. i < length (res_score result)"
    and out: "out = build_output (arg_return_score args)
               (map (\<lambda>i. res_score result ! i) indices)
               (map (\<lambda>i. res_text result ! i) indices)
               (map (\<lambda>i. res_metadata result ! i) indices)"
    by blast
  have "out = Scored (map (\<lambda>i. (\<lparr>page_content = res_text result ! i,
                                 metadata = res_metadata result ! i\<rparr>,
                                res_score result ! i)) indices)"
    unfolding out using assms(3) by (simp add: build_output_def zip_selected)
  with sc st m rng show ?thesis by blast
qed

text \<open>The selection picks positions 0 and 2, and the scores are the store's first and third.\<close>

theorem mmr_scores_are_store_scores_witness:
  "\<not> truthy (arg_tql_query mmr_args) \<and> arg_use_maximal_marginal_relevance mmr_args
   \<and> arg_return_score mmr_args
   \<and> snd (search toy_library toy_deeplake mmr_args)
       = Inr (Scored [(\<lparr>page_content = ''a'', metadata = [(''id'', ''0'')]\<rparr>, 0),
                      (\<lparr>page_content = ''c'', metadata = [(''id'', ''2'')]\<rparr>, 1)])
   \<and> res_score toy_tensors = [0, 1/100, 1]
   \<and> (\<exists>emb result indices.
        store_calls (fst (search toy_library toy_deeplake mmr_args)) = [search_call mmr_args emb]
        \<and> vectorstore toy_deeplake (search_call mmr_args emb) = Inr result
        \<and> maximal_marginal_relevance toy_library emb (res_embedding result)
            (min (arg_k mmr_args) (int (length (res_text result))))
            (case arg_lambda_mult mmr_args of None \<Rightarrow> 1 / 2 | Some l \<Rightarrow> l) = Inr indices
        \<and> (\<forall>i \<in> set indices. i < length (res_score result))
        \<and> Scored [(\<lparr>page_content = ''a'', metadata = [(''id'', ''0'')]\<rparr>, 0),
                      (\<lparr>page_content = ''c'', metadata = [(''id'', ''2'')]\<rparr>, 1)]
            = Scored (map (\<lambda>i. (\<lparr>page_content = res_text result ! i,
                                 metadata = res_metadata result ! i\<rparr>,
                                res_score result ! i)) indices))"
proof -
  have t: "\<not> truthy (arg_tql_query mmr_args)" by (simp add: mmr_args_def toy_args_def)
  have u: "arg_use_maximal_marginal_relevance mmr_args" by (simp add: mmr_args_def)
  have s: "arg_return_score mmr_args" by (simp add: mmr_args_def)
  have ok: "snd (search toy_library toy_deeplake mmr_args)
       = Inr (Scored [(\<lparr>page_content = ''a'', metadata = [(''id'', ''0'')]\<rparr>, 0),
                      (\<lparr>page_content = ''c'', metadata = [(''id'', ''2'')]\<rparr>, 1)])"
    by (simp add: toy_mmr_run)
  have sc: "res_score toy_tensors = [0, 1/100, 1]" by (simp add: toy_tensors_def)
  show ?thesis
    by (intro conjI) (rule t u s ok sc mmr_scores_are_store_scores[OF t u s ok])+
qed

text \<open>
  C10.  Without a TQL query, with no query (or the empty one) and no embedding, and with
  an embedding function, explicit or configured: no embedding function is called,
  \<open>_search\<close> raises nothing of its own, and the store is searched once, with the embedding
  \<open>None\<close>; the outcome is the store's error or what the ranking makes of its answer.
\<close>

theorem search_without_query:
  assumes "\<not> truthy (arg_tql_query args)"
    and "\<not> truthy (arg_query args)" and "arg_embedding args = None"
    and "arg_embedding_function args \<noteq> None \<or> self_embedding_function self \<noteq> None"
  shows "embed_calls (fst (search lib self args)) = []
     \<and> store_calls (fst (search lib self args)) = [search_call args None]
     \<and> requested_embedding (search_call args None) = None
     \<and> snd (search lib self args) =
         (case vectorstore self (search_call args None) of
            Inl e \<Rightarrow> Inl e
          | Inr result \<Rightarrow> snd (rank_result lib args None result))"
proof -
  from assms(4) obtain src f where
    "resolve_embedding_function (arg_embedding_function args) (self_embedding_function self)
       = Some (src, f)"
    by (cases "arg_embedding_function args"; cases "self_embedding_function self")
       (auto simp: resolve_embedding_function_def)
  then have r: "resolve_embedding
       (resolve_embedding_function (arg_embedding_function args) (self_embedding_function self))
       (arg_embedding args) (arg_query args) = ([], Inr None)"
    using assms(2,3) by (simp add: resolve_embedding_def)
  have n: "to_ndarray lib None = Inr None" by (simp add: to_ndarray_def)
  show ?thesis
    unfolding search_plain[OF assms(1)] r
    by (simp add: n embed_calls_append store_calls_append rank_result_trace search_call_def
        split: sum.splits)
qed

text \<open>The toy store answers a search without an embedding, and its documents come back.\<close>

theorem search_without_query_witness:
  "\<not> truthy (arg_tql_query no_query_args) \<and> \<not> truthy (arg_query no_query_args)
   \<and> arg_embedding no_query_args = None
   \<and> self_embedding_function toy_deeplake = Some toy_configured
   \<and> embed_calls (fst (search toy_library toy_deeplake no_query_args)) = []
   \<and> store_calls (fst (search toy_library toy_deeplake no_query_args))
       = [search_call no_query_args None]
   \<and> snd (search toy_library toy_deeplake no_query_args)
       = Inr (Docs [\<lparr>page_content = ''a'', metadata = [(''id'', ''0'')]\<rparr>,
                    \<lparr>page_content = ''b'', metadata = [(''id'', ''1'')]\<rparr>,
                    \<lparr>page_content = ''c'', metadata = [(''id'', ''2'')]\<rparr>])"
proof -
  have t: "\<not> truthy (arg_tql_query no_query_args)"
    by (simp add: no_query_args_def toy_args_def)
  have q: "\<not> truthy (arg_query no_query_args)" by (simp add: no_query_args_def)
  have e: "arg_embedding no_query_args = None" by (simp add: no_query_args_def toy_args_def)
  have c: "self_embedding_function toy_deeplake = Some toy_configured"
    by (simp add: toy_deeplake_def)
  have f: "arg_embedding_function no_query_args \<noteq> None
      \<or> self_embedding_function toy_deeplake \<noteq> None"
    using c by simp
  have st: "vectorstore toy_deeplake (search_call no_query_args None) = Inr toy_tensors"
    by (simp add: toy_deeplake_def search_call_def no_query_args_def toy_args_def
        first_candidates_def toy_tensors_def)
  have rk: "snd (rank_result toy_library no_query_args None toy_tensors)
       = Inr (Docs [\<lparr>page_content = ''a'', metadata = [(''id'', ''0'')]\<rparr>,
                    \<lparr>page_content = ''b'', metadata = [(''id'', ''1'')]\<rparr>,
                    \<lparr>page_content = ''c'', metadata = [(''id'', ''2'')]\<rparr>])"
    by (simp add: rank_result_def no_query_args_def toy_args_def toy_tensors_def
        build_output_def make_docs_def)
  note th = search_without_query[OF t q e f, of toy_library]
  have out: "snd (search toy_library toy_deeplake no_query_args)
       = Inr (Docs [\<lparr>page_content = ''a'', metadata = [(''id'', ''0'')]\<rparr>,
                    \<lparr>page_content = ''b'', metadata = [(''id'', ''1'')]\<rparr>,
                    \<lparr>page_content = ''c'', metadata = [(''id'', ''2'')]\<rparr>])"
    using th[THEN conjunct2, THEN conjunct2, THEN conjunct2] by (simp add: st rk)
  show ?thesis
    by (intro conjI) (rule t q e c th[THEN conjunct1] th[THEN conjunct2, THEN conjunct1] out)+
qed


end
